theory Spec2Isabelle
  imports Main
begin

section \<open>Entity model\<close>

text \<open>
  Identifiers and principals are opaque strings (UUIDs in the managed backend, arbitrary
  strings in the local store). Time is an abstract integer clock: every \<open>new Date()\<close> and
  every \<open>NOW()\<close> of one service call reads the argument \<open>now\<close>, and a date is a
  point of that clock; the date strings of a task specification, which \<open>createTask\<close>
  parses, may be unparseable (\<open>date_input\<close> below).
  Progress is an integer, as the column \<open>progress\<close> is. Fresh identifiers
  (\<open>generateId\<close>, \<open>crypto.randomUUID\<close>, \<open>gen_random_uuid()\<close>) are arguments of the
  operations that draw them.
\<close>

type_synonym ident = string
type_synonym principal = string
type_synonym timestamp = int

datatype task_type = TaskT | Milestone | Deliverable

datatype task_status =
  NotStarted | InProgress | Completed | OnHold | Impacted | OnGoing | DevInProgress | Done

datatype project_status = Active | ProjectCompleted | Archived

text \<open>The type \<open>Task\<close> of \<open>taskService.ts\<close> (and a row of the table \<open>tasks\<close>).\<close>

record task =
  t_id :: ident
  t_project_id :: ident
  t_name :: string
  t_description :: "string option"
  t_task_type :: task_type
  t_status :: task_status
  t_start_date :: timestamp
  t_end_date :: timestamp
  t_assignee :: "principal option"
  t_progress :: int
  t_dependencies :: "ident list"
  t_custom_fields :: "(string \<times> string) list"
  t_created_at :: timestamp
  t_updated_at :: timestamp

text \<open>
  A date of a task specification is a string that the service has yet to read:
  \<open>DateString t\<close> is a non-empty string that names the instant \<open>t\<close>, \<open>InvalidDate\<close> a
  non-empty string that names none (\<open>new Date(x)\<close> is then an invalid date, and the
  backend cannot cast it). An absent or empty string is \<open>None\<close>.
\<close>

datatype date_input = DateString timestamp | InvalidDate

text \<open>\<open>Partial<TaskInsert>\<close>: every field may be absent.\<close>

record task_insert =
  ti_project_id :: "ident option"
  ti_name :: "string option"
  ti_description :: "string option"
  ti_task_type :: "task_type option"
  ti_status :: "task_status option"
  ti_start_date :: "date_input option"
  ti_end_date :: "date_input option"
  ti_assignee :: "principal option"
  ti_progress :: "int option"
  ti_dependencies :: "ident list option"
  ti_custom_fields :: "(string \<times> string) list option"

text \<open>
  \<open>TaskUpdate = Partial<Omit<Task, 'id' | 'project_id' | 'created_at'>>\<close>: a field that is
  \<open>None\<close> is absent from the object; \<open>tu_description = Some None\<close> sets the description to
  \<open>null\<close>, and likewise for the assignee.
\<close>

record task_update =
  tu_name :: "string option"
  tu_description :: "string option option"
  tu_task_type :: "task_type option"
  tu_status :: "task_status option"
  tu_start_date :: "timestamp option"
  tu_end_date :: "timestamp option"
  tu_assignee :: "principal option option"
  tu_progress :: "int option"
  tu_dependencies :: "ident list option"
  tu_custom_fields :: "(string \<times> string) list option"
  tu_updated_at :: "timestamp option"

definition no_updates :: task_update where
  "no_updates = \<lparr> tu_name = None, tu_description = None, tu_task_type = None,
     tu_status = None, tu_start_date = None, tu_end_date = None, tu_assignee = None,
     tu_progress = None, tu_dependencies = None, tu_custom_fields = None,
     tu_updated_at = None \<rparr>"

text \<open>The object spread \<open>{ ...task, ...updates }\<close>: the fields present in \<open>updates\<close> win.\<close>

definition merge_updates :: "task \<Rightarrow> task_update \<Rightarrow> task" where
  "merge_updates t u = t\<lparr>
     t_name := (case tu_name u of None \<Rightarrow> t_name t | Some v \<Rightarrow> v),
     t_description := (case tu_description u of None \<Rightarrow> t_description t | Some v \<Rightarrow> v),
     t_task_type := (case tu_task_type u of None \<Rightarrow> t_task_type t | Some v \<Rightarrow> v),
     t_status := (case tu_status u of None \<Rightarrow> t_status t | Some v \<Rightarrow> v),
     t_start_date := (case tu_start_date u of None \<Rightarrow> t_start_date t | Some v \<Rightarrow> v),
     t_end_date := (case tu_end_date u of None \<Rightarrow> t_end_date t | Some v \<Rightarrow> v),
     t_assignee := (case tu_assignee u of None \<Rightarrow> t_assignee t | Some v \<Rightarrow> v),
     t_progress := (case tu_progress u of None \<Rightarrow> t_progress t | Some v \<Rightarrow> v),
     t_dependencies := (case tu_dependencies u of None \<Rightarrow> t_dependencies t | Some v \<Rightarrow> v),
     t_custom_fields := (case tu_custom_fields u of None \<Rightarrow> t_custom_fields t | Some v \<Rightarrow> v),
     t_updated_at := (case tu_updated_at u of None \<Rightarrow> t_updated_at t | Some v \<Rightarrow> v) \<rparr>"

text \<open>
  A project of the local store (\<open>ProjectDetail\<close> of \<open>typeCompatibility.ts\<close>), with its tasks
  embedded. \<open>p_tasks = None\<close> is an object without a \<open>tasks\<close> property, which
  \<open>taskService.ts\<close> guards against; \<open>p_lastModified\<close> is the camel-case property that
  \<open>TaskService.createTask\<close> writes beside \<open>last_modified\<close>.
\<close>

record custom_field =
  cf_id :: ident
  cf_project_id :: ident
  cf_name :: string

record project =
  p_id :: ident
  p_name :: string
  p_description :: string
  p_status :: project_status
  p_created_at :: timestamp
  p_last_modified :: timestamp
  p_created_by :: principal
  p_team_members :: "string list"
  p_tasks :: "task list option"
  p_custom_fields :: "custom_field list"
  p_lastModified :: "timestamp option"

text \<open>\<open>ProjectUpdate\<close>, with \<open>last_modified\<close> as \<open>updateProject\<close> always adds it.\<close>

record project_update =
  pu_name :: "string option"
  pu_description :: "string option"
  pu_status :: "project_status option"
  pu_team_members :: "string list option"
  pu_tasks :: "task list option"
  pu_custom_fields :: "custom_field list option"
  pu_last_modified :: "timestamp option"

text \<open>The structured payloads that the services pass as \<open>changes\<close>.\<close>

datatype changes =
  ProjectName string
  | ProjectUpdates project_update
  | ProjectId ident
  | TaskName string
  | TaskUpdates task_update
  | TaskId ident
  | Count nat

record activity =
  l_id :: ident
  l_project_id :: ident
  l_task_id :: "ident option"
  l_user_id :: "principal option"
  l_action :: string
  l_changes :: "changes option"
  l_created_at :: timestamp

text \<open>
  Thrown values: \<open>Error msg\<close> is \<open>new Error(msg)\<close>; \<open>RangeError msg\<close> is what
  \<open>toISOString\<close> throws on an invalid date; \<open>Postgrest e\<close> is the error object that the
  managed backend returns and the service rethrows.
\<close>

datatype pg_error =
  RlsViolation
  | InvalidDatetimeFormat
  | NotNullViolation string
  | CheckViolation string
  | ForeignKeyViolation string
  | NoRows

datatype error = Error string | RangeError string | Postgrest pg_error

section \<open>Array helpers\<close>

text \<open>\<open>Array.prototype.findIndex\<close>, with \<open>None\<close> for \<open>-1\<close>; \<open>find\<close> is \<^const>\<open>List.find\<close>.\<close>

fun findIndex :: "('a \<Rightarrow> bool) \<Rightarrow> 'a list \<Rightarrow> nat option" where
  "findIndex P [] = None"
| "findIndex P (x # xs) = (if P x then Some 0 else map_option Suc (findIndex P xs))"

section \<open>Local (demo) variant: TaskService\<close>

text \<open>
  The local variant keeps two values under two keys of \<open>localStorage\<close> (\<open>ls_projects\<close>,
  \<open>ls_log\<close>; an absent key reads as the empty list) and, in \<open>typeCompatibility.ts\<close>, two
  module-level variables (\<open>demoProjects\<close>, \<open>demoActivityLog\<close>). \<open>TaskService\<close> reads and
  writes the stored projects only; \<open>ProjectService\<close> works on the variables and saves them.
\<close>

record demo_state =
  ls_projects :: "project list"
  ls_log :: "activity list"
  demoProjects :: "project list"
  demoActivityLog :: "activity list"

definition loadDemoProjects :: "demo_state \<Rightarrow> project list" where
  "loadDemoProjects s = ls_projects s"

definition saveDemoProjects :: "project list \<Rightarrow> demo_state \<Rightarrow> demo_state" where
  "saveDemoProjects ps s = s\<lparr>ls_projects := ps\<rparr>"

text \<open>\<open>x || d\<close> on a string that may be absent: the empty string is falsy too.\<close>

definition or_str :: "string option \<Rightarrow> string \<Rightarrow> string" where
  "or_str x d = (case x of None \<Rightarrow> d | Some v \<Rightarrow> if v = [] then d else v)"

definition or_null :: "string option \<Rightarrow> string option" where
  "or_null x = (case x of None \<Rightarrow> None | Some v \<Rightarrow> if v = [] then None else Some v)"

definition or_else :: "'a option \<Rightarrow> 'a \<Rightarrow> 'a" where
  "or_else x d = (case x of None \<Rightarrow> d | Some v \<Rightarrow> v)"

text \<open>
  \<open>x ? new Date(x).toISOString() : now\<close>: the instant of a date string, \<open>now\<close> for an
  absent one, and a \<open>RangeError\<close> for one that does not parse.
\<close>

definition toISOString :: "timestamp \<Rightarrow> date_input option \<Rightarrow> error + timestamp" where
  "toISOString now x =
     (case x of
        None \<Rightarrow> Inr now
      | Some (DateString t) \<Rightarrow> Inr t
      | Some InvalidDate \<Rightarrow> Inl (RangeError ''Invalid time value''))"

text \<open>
  The object literal \<open>newTask\<close> of \<open>createTask\<close> (local branch), with the two dates
  already converted.
\<close>

definition newTask ::
  "ident \<Rightarrow> timestamp \<Rightarrow> ident \<Rightarrow> task_insert \<Rightarrow> timestamp \<Rightarrow> timestamp \<Rightarrow> task" where
  "newTask new_id now pid ti start_date end_date = \<lparr>
     t_id = new_id,
     t_project_id = pid,
     t_name = or_str (ti_name ti) ''Untitled Task'',
     t_description = or_null (ti_description ti),
     t_task_type = or_else (ti_task_type ti) TaskT,
     t_status = or_else (ti_status ti) NotStarted,
     t_start_date = start_date,
     t_end_date = end_date,
     t_assignee = or_null (ti_assignee ti),
     t_progress = or_else (ti_progress ti) 0,
     t_dependencies = or_else (ti_dependencies ti) [],
     t_custom_fields = or_else (ti_custom_fields ti) [],
     t_created_at = now,
     t_updated_at = now \<rparr>"

definition getProjectTasks_demo :: "ident \<Rightarrow> demo_state \<Rightarrow> task list" where
  "getProjectTasks_demo projectId s =
     (case find (\<lambda>p. p_id p = projectId) (loadDemoProjects s) of
        None \<Rightarrow> []
      | Some project \<Rightarrow> or_else (p_tasks project) [])"

definition createTask_demo ::
  "ident \<Rightarrow> timestamp \<Rightarrow> task_insert \<Rightarrow> demo_state \<Rightarrow> error + (task \<times> demo_state)" where
  "createTask_demo new_id now ti s =
     (let ps = loadDemoProjects s in
      case ti_project_id ti of
        None \<Rightarrow> Inl (Error ''Project not found'')
      | Some pid \<Rightarrow>
         (case findIndex (\<lambda>p. p_id p = pid) ps of
            None \<Rightarrow> Inl (Error ''Project not found'')
          | Some i \<Rightarrow>
             (case toISOString now (ti_start_date ti) of
                Inl e \<Rightarrow> Inl e
              | Inr start_date \<Rightarrow>
                 (case toISOString now (ti_end_date ti) of
                    Inl e \<Rightarrow> Inl e
                  | Inr end_date \<Rightarrow>
                      let nt = newTask new_id now pid ti start_date end_date;
                          p = ps ! i;
                          p' = p\<lparr>p_tasks := Some (or_else (p_tasks p) [] @ [nt]),
                                 p_lastModified := Some now\<rparr>
                      in Inr (nt, saveDemoProjects (ps[i := p']) s)))))"

definition updateTask_demo ::
  "timestamp \<Rightarrow> ident \<Rightarrow> ident \<Rightarrow> task_update \<Rightarrow> demo_state \<Rightarrow> error + (task \<times> demo_state)" where
  "updateTask_demo now tid projectId updates s =
     (let ps = loadDemoProjects s in
      case findIndex (\<lambda>p. p_id p = projectId) ps of
        None \<Rightarrow> Inl (Error ''Task not found'')
      | Some i \<Rightarrow>
         (case p_tasks (ps ! i) of
            None \<Rightarrow> Inl (Error ''Task not found'')
          | Some ts \<Rightarrow>
             (case findIndex (\<lambda>t. t_id t = tid) ts of
                None \<Rightarrow> Inl (Error ''Task not found'')
              | Some j \<Rightarrow>
                  let updatedTask = (merge_updates (ts ! j) updates)\<lparr>t_updated_at := now\<rparr>
                  in Inr (updatedTask,
                          saveDemoProjects (ps[i := (ps ! i)\<lparr>p_tasks := Some (ts[j := updatedTask])\<rparr>]) s))))"

definition deleteTask_demo :: "ident \<Rightarrow> ident \<Rightarrow> demo_state \<Rightarrow> error + demo_state" where
  "deleteTask_demo tid projectId s =
     (let ps = loadDemoProjects s in
      case findIndex (\<lambda>p. p_id p = projectId) ps of
        None \<Rightarrow> Inl (Error ''Task not found'')
      | Some i \<Rightarrow>
         (case p_tasks (ps ! i) of
            None \<Rightarrow> Inl (Error ''Task not found'')
          | Some ts \<Rightarrow>
              let ts' = filter (\<lambda>t. t_id t \<noteq> tid) ts
              in if length ts' < length ts
                 then Inr (saveDemoProjects (ps[i := (ps ! i)\<lparr>p_tasks := Some ts'\<rparr>]) s)
                 else Inl (Error ''Task not found'')))"

text \<open>
  The status that \<open>updateTaskProgress\<close> derives (the variable \<open>newStatus\<close>), and the
  \<open>updates\<close> object it builds: \<open>status\<close> is set only when it differs from the task's.
\<close>

definition newStatus :: "int \<Rightarrow> task_status \<Rightarrow> task_status" where
  "newStatus progress st =
     (if progress \<le> 0 then NotStarted
      else if progress \<ge> 100 then Completed
      else if st = NotStarted \<or> st = Completed then InProgress
      else st)"

definition progress_updates :: "int \<Rightarrow> task \<Rightarrow> task_update" where
  "progress_updates progress taskToUpdate =
     (let u = no_updates\<lparr>tu_progress := Some progress\<rparr>;
          ns = newStatus progress (t_status taskToUpdate)
      in if ns \<noteq> t_status taskToUpdate then u\<lparr>tu_status := Some ns\<rparr> else u)"

definition updateTaskProgress_demo ::
  "timestamp \<Rightarrow> ident \<Rightarrow> ident \<Rightarrow> int \<Rightarrow> demo_state \<Rightarrow> error + (task \<times> demo_state)" where
  "updateTaskProgress_demo now tid projectId progress s =
     (case find (\<lambda>p. p_id p = projectId) (loadDemoProjects s) of
        None \<Rightarrow> Inl (Error ''Task not found'')
      | Some project \<Rightarrow>
         (case p_tasks project of
            None \<Rightarrow> Inl (Error ''Task not found'')
          | Some ts \<Rightarrow>
             (case find (\<lambda>t. t_id t = tid) ts of
                None \<Rightarrow> Inl (Error ''Task not found'')
              | Some taskToUpdate \<Rightarrow>
                  updateTask_demo now tid projectId (progress_updates progress taskToUpdate) s)))"

text \<open>
  \<open>importTasks\<close>, local branch: the loop over \<open>tasks\<close> with its \<open>try\<close>/\<open>catch\<close>. The
  list \<open>results\<close> is the accumulator; \<open>gen k\<close> is the identifier that the \<open>k\<close>-th task
  created by this import receives. An empty \<open>project_id\<close> is falsy and skipped.
\<close>

fun importTasks_loop ::
  "(nat \<Rightarrow> ident) \<Rightarrow> timestamp \<Rightarrow> task_insert list \<Rightarrow> task list \<Rightarrow> demo_state
     \<Rightarrow> task list \<times> demo_state" where
  "importTasks_loop gen now [] results s = (results, s)"
| "importTasks_loop gen now (ti # rest) results s =
     (if or_null (ti_project_id ti) \<noteq> None
      then (case createTask_demo (gen (length results)) now ti s of
              Inr (result, s') \<Rightarrow> importTasks_loop gen now rest (results @ [result]) s'
            | Inl e \<Rightarrow> importTasks_loop gen now rest results s)
      else importTasks_loop gen now rest results s)"

definition importTasks_demo ::
  "(nat \<Rightarrow> ident) \<Rightarrow> timestamp \<Rightarrow> task_insert list \<Rightarrow> demo_state \<Rightarrow> task list \<times> demo_state" where
  "importTasks_demo gen now tis s = importTasks_loop gen now tis [] s"

text \<open>
  \<open>getTaskDependencies\<close>, local branch: the first project that holds a task with the
  given id, then that project's tasks whose id occurs in the dependency list.
\<close>

fun find_task_project :: "ident \<Rightarrow> project list \<Rightarrow> (task \<times> project) option" where
  "find_task_project taskId [] = None"
| "find_task_project taskId (p # ps) =
     (case find (\<lambda>t. t_id t = taskId) (or_else (p_tasks p) []) of
        Some t \<Rightarrow> Some (t, p)
      | None \<Rightarrow> find_task_project taskId ps)"

definition getTaskDependencies_demo :: "ident \<Rightarrow> demo_state \<Rightarrow> task list" where
  "getTaskDependencies_demo taskId s =
     (case find_task_project taskId (loadDemoProjects s) of
        None \<Rightarrow> []
      | Some (t, project) \<Rightarrow>
          if t_dependencies t = [] then []
          else filter (\<lambda>d. t_id d \<in> set (t_dependencies t)) (or_else (p_tasks project) []))"

definition all_done :: "task list \<Rightarrow> bool" where
  "all_done dependencies =
     (if length dependencies = 0 then True
      else list_all (\<lambda>dep. t_status dep = Completed \<or> t_status dep = Done) dependencies)"

definition canStartTask_demo :: "ident \<Rightarrow> demo_state \<Rightarrow> bool" where
  "canStartTask_demo taskId s = all_done (getTaskDependencies_demo taskId s)"

text \<open>
  The row that \<open>logActivity\<close> writes (the object \<open>logEntry\<close> of the local branch, the
  inserted object of the managed one): \<open>taskId || null\<close> is the task reference.
\<close>

definition logEntry ::
  "ident \<Rightarrow> timestamp \<Rightarrow> ident \<Rightarrow> principal \<Rightarrow> string \<Rightarrow> changes option \<Rightarrow> ident option
     \<Rightarrow> activity" where
  "logEntry log_id now projectId userId action chg taskId =
     \<lparr> l_id = log_id, l_project_id = projectId, l_task_id = or_null taskId,
       l_user_id = Some userId, l_action = action, l_changes = chg, l_created_at = now \<rparr>"

text \<open>\<open>TaskService.logActivity\<close> when the managed backend is not configured: it returns at once.\<close>

definition logActivity_task_demo ::
  "ident \<Rightarrow> string \<Rightarrow> changes option \<Rightarrow> ident option \<Rightarrow> demo_state \<Rightarrow> demo_state" where
  "logActivity_task_demo projectId action chg taskId s = s"

section \<open>Local (demo) variant: ProjectService of typeCompatibility.ts\<close>

record project_insert =
  pi_name :: string
  pi_description :: "string option"
  pi_status :: "project_status option"
  pi_team_members :: "string list option"

definition saveProjects :: "demo_state \<Rightarrow> demo_state" where
  "saveProjects s = s\<lparr>ls_projects := demoProjects s\<rparr>"

definition logActivity_demo ::
  "ident \<Rightarrow> timestamp \<Rightarrow> ident \<Rightarrow> principal \<Rightarrow> string \<Rightarrow> changes option \<Rightarrow> ident option
     \<Rightarrow> demo_state \<Rightarrow> demo_state" where
  "logActivity_demo log_id now projectId userId action chg taskId s =
     (let lg = logEntry log_id now projectId userId action chg taskId # demoActivityLog s
      in s\<lparr>demoActivityLog := lg, ls_log := lg\<rparr>)"

definition createProject_demo ::
  "ident \<Rightarrow> ident \<Rightarrow> timestamp \<Rightarrow> project_insert \<Rightarrow> demo_state \<Rightarrow> project \<times> demo_state" where
  "createProject_demo new_id log_id now pr s =
     (let newProject = \<lparr> p_id = new_id, p_name = pi_name pr,
                          p_description = or_str (pi_description pr) [],
                          p_status = or_else (pi_status pr) Active,
                          p_created_at = now, p_last_modified = now,
                          p_created_by = ''demo_user'',
                          p_team_members = or_else (pi_team_members pr) [],
                          p_tasks = Some [], p_custom_fields = [], p_lastModified = None \<rparr>;
          s1 = saveProjects (s\<lparr>demoProjects := demoProjects s @ [newProject]\<rparr>)
      in (newProject,
          logActivity_demo log_id now new_id ''demo_user'' ''project_created''
            (Some (ProjectName (p_name newProject))) None s1))"

definition merge_project :: "project \<Rightarrow> project_update \<Rightarrow> project" where
  "merge_project p u = p\<lparr>
     p_name := or_else (pu_name u) (p_name p),
     p_description := or_else (pu_description u) (p_description p),
     p_status := or_else (pu_status u) (p_status p),
     p_team_members := or_else (pu_team_members u) (p_team_members p),
     p_tasks := (case pu_tasks u of None \<Rightarrow> p_tasks p | Some ts \<Rightarrow> Some ts),
     p_custom_fields := or_else (pu_custom_fields u) (p_custom_fields p),
     p_last_modified := or_else (pu_last_modified u) (p_last_modified p) \<rparr>"

definition updateProject_demo ::
  "ident \<Rightarrow> timestamp \<Rightarrow> ident \<Rightarrow> project_update \<Rightarrow> demo_state \<Rightarrow> error + (project \<times> demo_state)" where
  "updateProject_demo log_id now pid updates s =
     (let finalUpdates = updates\<lparr>pu_last_modified := Some now\<rparr> in
      case findIndex (\<lambda>p. p_id p = pid) (demoProjects s) of
        None \<Rightarrow> Inl (Error ''Project not found in demo storage'')
      | Some i \<Rightarrow>
          let p' = merge_project (demoProjects s ! i) finalUpdates;
              s1 = saveProjects (s\<lparr>demoProjects := (demoProjects s)[i := p']\<rparr>)
          in Inr (p', logActivity_demo log_id now pid ''demo_user'' ''project_updated''
                        (Some (ProjectUpdates finalUpdates)) None s1))"

definition deleteProject_demo :: "ident \<Rightarrow> timestamp \<Rightarrow> ident \<Rightarrow> demo_state \<Rightarrow> error + demo_state" where
  "deleteProject_demo log_id now pid s =
     (let initialLength = length (demoProjects s);
          s1 = s\<lparr>demoProjects := filter (\<lambda>p. p_id p \<noteq> pid) (demoProjects s)\<rparr>
      in if length (demoProjects s1) < initialLength
         then Inr (logActivity_demo log_id now pid ''demo_user'' ''project_deleted''
                     (Some (ProjectId pid)) None (saveProjects s1))
         else Inr s1)"


section \<open>Managed backend: schema, constraints and row-level security\<close>

text \<open>
  The tables of the schema. \<open>created_by\<close> is nullable (\<open>ON DELETE SET NULL\<close>);
  \<open>team_members\<close> is the JSON array of strings that the services write. Of a custom field
  only the key, the owning project and the name are kept. Primary keys are filled by
  \<open>gen_random_uuid()\<close>, which the operations below take as an argument.
\<close>

record project_row =
  pr_id :: ident
  pr_name :: string
  pr_description :: "string option"
  pr_status :: project_status
  pr_created_date :: timestamp
  pr_last_modified :: timestamp
  pr_created_by :: "principal option"
  pr_team_members :: "string list"

record db =
  projects :: "project_row list"
  tasks :: "task list"
  custom_fields :: "custom_field list"
  activity_log :: "activity list"
  auth_users :: "principal list"

datatype row =
  ProjectRow project_row | TaskRow task | CustomFieldRow custom_field | ActivityRow activity

datatype operation = Select | Insert | Update | Delete

text \<open>
  The expression \<open>auth.uid() = created_by OR team_members @> to_jsonb(auth.uid()::text)\<close>
  on a row of \<open>projects\<close> (a null \<open>created_by\<close> equals no principal), and the function
  \<open>can_access_project\<close>, which looks for a row with the given key that satisfies it.
\<close>

definition row_access :: "principal \<Rightarrow> project_row \<Rightarrow> bool" where
  "row_access uid r \<longleftrightarrow> Some uid = pr_created_by r \<or> uid \<in> set (pr_team_members r)"

definition can_access_project :: "db \<Rightarrow> principal \<Rightarrow> ident \<Rightarrow> bool" where
  "can_access_project d uid p_project_id \<longleftrightarrow>
     list_ex (\<lambda>r. pr_id r = p_project_id \<and> row_access uid r) (projects d)"

text \<open>
  The policies, one equation for each \<open>USING\<close> and each \<open>WITH CHECK\<close> clause. A
  \<open>USING\<close> clause filters the existing rows that a select, update or delete may touch; a
  \<open>WITH CHECK\<close> clause tests the row that an insert or update writes. \<open>activity_log\<close> has
  no update or delete policy, so with row-level security enabled no row passes.
\<close>

fun policy_using :: "db \<Rightarrow> principal \<Rightarrow> operation \<Rightarrow> row \<Rightarrow> bool" where
  "policy_using d uid Select (ProjectRow r) = row_access uid r"
| "policy_using d uid Update (ProjectRow r) = row_access uid r"
| "policy_using d uid Delete (ProjectRow r) = row_access uid r"
| "policy_using d uid Select (TaskRow t) = can_access_project d uid (t_project_id t)"
| "policy_using d uid Update (TaskRow t) = can_access_project d uid (t_project_id t)"
| "policy_using d uid Delete (TaskRow t) = can_access_project d uid (t_project_id t)"
| "policy_using d uid Select (CustomFieldRow c) = can_access_project d uid (cf_project_id c)"
| "policy_using d uid Update (CustomFieldRow c) = can_access_project d uid (cf_project_id c)"
| "policy_using d uid Delete (CustomFieldRow c) = can_access_project d uid (cf_project_id c)"
| "policy_using d uid Select (ActivityRow a) = can_access_project d uid (l_project_id a)"
| "policy_using d uid Update (ActivityRow a) = False"
| "policy_using d uid Delete (ActivityRow a) = False"
| "policy_using d uid Insert x = True"

fun policy_with_check :: "db \<Rightarrow> principal \<Rightarrow> operation \<Rightarrow> row \<Rightarrow> bool" where
  "policy_with_check d uid Insert (ProjectRow r) = (Some uid = pr_created_by r)"
| "policy_with_check d uid Update (ProjectRow r) = row_access uid r"
| "policy_with_check d uid Insert (TaskRow t) = can_access_project d uid (t_project_id t)"
| "policy_with_check d uid Update (TaskRow t) = can_access_project d uid (t_project_id t)"
| "policy_with_check d uid Insert (CustomFieldRow c) = can_access_project d uid (cf_project_id c)"
| "policy_with_check d uid Update (CustomFieldRow c) = can_access_project d uid (cf_project_id c)"
| "policy_with_check d uid Insert (ActivityRow a) =
     (l_user_id a = Some uid \<and> can_access_project d uid (l_project_id a))"
| "policy_with_check d uid Update (ActivityRow a) = False"
| "policy_with_check d uid Select x = True"
| "policy_with_check d uid Delete x = True"

text \<open>
  Every policy is \<open>TO authenticated\<close>: a session without a user (\<open>auth.uid()\<close> null)
  passes none.
\<close>

definition rls_using :: "db \<Rightarrow> principal option \<Rightarrow> operation \<Rightarrow> row \<Rightarrow> bool" where
  "rls_using d session opn x =
     (case session of None \<Rightarrow> False | Some uid \<Rightarrow> policy_using d uid opn x)"

definition rls_with_check :: "db \<Rightarrow> principal option \<Rightarrow> operation \<Rightarrow> row \<Rightarrow> bool" where
  "rls_with_check d session opn x =
     (case session of None \<Rightarrow> False | Some uid \<Rightarrow> policy_with_check d uid opn x)"

text \<open>
  The constraints of \<open>tasks\<close> on a complete row: the three \<open>CHECK\<close>s that a typed row can
  violate, in the order of their names, then the two foreign keys. (\<open>task_type\<close> admits
  every value of the type.)
\<close>

definition task_constraints :: "db \<Rightarrow> task \<Rightarrow> pg_error option" where
  "task_constraints d t =
     (if \<not> (t_end_date t \<ge> t_start_date t)
        then Some (CheckViolation ''end_date_after_start_date'')
      else if \<not> (t_progress t \<ge> 0 \<and> t_progress t \<le> 100)
        then Some (CheckViolation ''tasks_progress_check'')
      else if \<not> (t_status t \<in> set [NotStarted, InProgress, Completed, OnHold])
        then Some (CheckViolation ''tasks_status_check'')
      else if \<not> list_ex (\<lambda>r. pr_id r = t_project_id t) (projects d)
        then Some (ForeignKeyViolation ''tasks_project_id_fkey'')
      else if (case t_assignee t of None \<Rightarrow> False | Some a \<Rightarrow> a \<notin> set (auth_users d))
        then Some (ForeignKeyViolation ''tasks_assignee_fkey'')
      else None)"

text \<open>\<open>TaskInsert\<close> as the service sends it: \<open>project_id\<close> and \<open>name\<close> may be undefined.\<close>

record task_data =
  td_project_id :: "ident option"
  td_name :: "string option"
  td_description :: "string option"
  td_task_type :: task_type
  td_status :: task_status
  td_start_date :: date_input
  td_end_date :: date_input
  td_assignee :: "principal option"
  td_progress :: int
  td_dependencies :: "ident list"
  td_custom_fields :: "(string \<times> string) list"

text \<open>
  One row of an \<open>INSERT INTO tasks\<close>: the values are cast to the column types first (a
  date string that names no date is refused), then the policy's \<open>WITH CHECK\<close>, then
  \<open>NOT NULL\<close>, then the other constraints.
\<close>

definition insert_task_row ::
  "db \<Rightarrow> principal option \<Rightarrow> timestamp \<Rightarrow> ident \<Rightarrow> task_data \<Rightarrow> error + task" where
  "insert_task_row d session now new_id td =
     (case (td_start_date td, td_end_date td) of
        (DateString start_date, DateString end_date) \<Rightarrow>
         (case td_project_id td of
            None \<Rightarrow> Inl (Postgrest RlsViolation)
          | Some pid \<Rightarrow>
              let t = \<lparr> t_id = new_id, t_project_id = pid, t_name = or_else (td_name td) [],
                        t_description = td_description td, t_task_type = td_task_type td,
                        t_status = td_status td, t_start_date = start_date,
                        t_end_date = end_date, t_assignee = td_assignee td,
                        t_progress = td_progress td, t_dependencies = td_dependencies td,
                        t_custom_fields = td_custom_fields td,
                        t_created_at = now, t_updated_at = now \<rparr>
              in if \<not> rls_with_check d session Insert (TaskRow t)
                   then Inl (Postgrest RlsViolation)
                 else if td_name td = None then Inl (Postgrest (NotNullViolation ''name''))
                 else (case task_constraints d t of
                         Some e \<Rightarrow> Inl (Postgrest e)
                       | None \<Rightarrow> Inr t))
      | _ \<Rightarrow> Inl (Postgrest InvalidDatetimeFormat))"

text \<open>
  A multi-row insert is one statement: the rows are checked in order, the first failure
  aborts it and nothing is stored. The \<open>k\<close>-th row gets the key \<open>gen k\<close>.
\<close>

fun insert_task_rows ::
  "db \<Rightarrow> principal option \<Rightarrow> timestamp \<Rightarrow> (nat \<Rightarrow> ident) \<Rightarrow> nat \<Rightarrow> task_data list
     \<Rightarrow> error + task list" where
  "insert_task_rows d session now gen k [] = Inr []"
| "insert_task_rows d session now gen k (td # rest) =
     (case insert_task_row d session now (gen k) td of
        Inl e \<Rightarrow> Inl e
      | Inr t \<Rightarrow>
         (case insert_task_rows d session now gen (Suc k) rest of
            Inl e \<Rightarrow> Inl e
          | Inr ts \<Rightarrow> Inr (t # ts)))"

definition insert_tasks ::
  "db \<Rightarrow> principal option \<Rightarrow> timestamp \<Rightarrow> (nat \<Rightarrow> ident) \<Rightarrow> task_data list
     \<Rightarrow> error + (task list \<times> db)" where
  "insert_tasks d session now gen tds =
     (case insert_task_rows d session now gen 0 tds of
        Inl e \<Rightarrow> Inl e
      | Inr ts \<Rightarrow> Inr (ts, d\<lparr>tasks := tasks d @ ts\<rparr>))"

text \<open>\<open>.single()\<close>: exactly one row, otherwise an error.\<close>

definition single :: "'a list \<Rightarrow> error + 'a" where
  "single rows = (case rows of [x] \<Rightarrow> Inr x | _ \<Rightarrow> Inl (Postgrest NoRows))"

definition select_task :: "db \<Rightarrow> principal option \<Rightarrow> ident \<Rightarrow> task list" where
  "select_task d session tid =
     filter (\<lambda>t. t_id t = tid \<and> rls_using d session Select (TaskRow t)) (tasks d)"

text \<open>
  \<open>UPDATE tasks SET ... WHERE id = tid\<close>: the rows that pass the update (and select)
  policy are rewritten; the trigger \<open>update_tasks_updated_at\<close> stamps a row that really
  changes; the new row must pass \<open>WITH CHECK\<close> and the constraints, or the statement fails.
\<close>

definition updated_row :: "timestamp \<Rightarrow> task_update \<Rightarrow> task \<Rightarrow> task" where
  "updated_row now updates t =
     (let t' = merge_updates t updates in if t' \<noteq> t then t'\<lparr>t_updated_at := now\<rparr> else t')"

definition update_target :: "db \<Rightarrow> principal option \<Rightarrow> ident \<Rightarrow> task \<Rightarrow> bool" where
  "update_target d session tid t \<longleftrightarrow>
     t_id t = tid \<and> rls_using d session Update (TaskRow t) \<and> rls_using d session Select (TaskRow t)"

definition row_violation :: "db \<Rightarrow> principal option \<Rightarrow> task \<Rightarrow> pg_error option" where
  "row_violation d session t' =
     (if \<not> rls_with_check d session Update (TaskRow t') then Some RlsViolation
      else task_constraints d t')"

fun first_violation :: "db \<Rightarrow> principal option \<Rightarrow> task list \<Rightarrow> pg_error option" where
  "first_violation d session [] = None"
| "first_violation d session (t' # rest) =
     (case row_violation d session t' of
        Some e \<Rightarrow> Some e
      | None \<Rightarrow> first_violation d session rest)"

definition update_task ::
  "db \<Rightarrow> principal option \<Rightarrow> timestamp \<Rightarrow> ident \<Rightarrow> task_update \<Rightarrow> error + (task list \<times> db)" where
  "update_task d session now tid updates =
     (let new_rows = map (updated_row now updates) (filter (update_target d session tid) (tasks d))
      in case first_violation d session new_rows of
           Some e \<Rightarrow> Inl (Postgrest e)
         | None \<Rightarrow>
             Inr (new_rows,
                  d\<lparr>tasks := map (\<lambda>t. if update_target d session tid t
                                        then updated_row now updates t else t) (tasks d)\<rparr>))"

text \<open>
  \<open>DELETE FROM tasks WHERE id = tid\<close>: rows that pass the delete policy go, and
  \<open>activity_log.task_id\<close> is set to null where it referenced one of them. Deleting nothing
  is not an error.
\<close>

definition null_task_refs :: "ident list \<Rightarrow> activity list \<Rightarrow> activity list" where
  "null_task_refs gone lg =
     map (\<lambda>a. case l_task_id a of
                 None \<Rightarrow> a
               | Some tid \<Rightarrow> if tid \<in> set gone then a\<lparr>l_task_id := None\<rparr> else a) lg"

definition delete_task :: "db \<Rightarrow> principal option \<Rightarrow> ident \<Rightarrow> db" where
  "delete_task d session tid =
     (let victim = (\<lambda>t. t_id t = tid \<and> rls_using d session Delete (TaskRow t));
          gone = map t_id (filter victim (tasks d))
      in d\<lparr>tasks := filter (\<lambda>t. \<not> victim t) (tasks d),
           activity_log := null_task_refs gone (activity_log d)\<rparr>)"

text \<open>
  \<open>INSERT INTO activity_log\<close>: the policy, then the three foreign keys (\<open>project_id\<close>,
  \<open>task_id\<close>, \<open>user_id\<close>).
\<close>

definition insert_activity :: "db \<Rightarrow> principal option \<Rightarrow> activity \<Rightarrow> error + db" where
  "insert_activity d session a =
     (if \<not> rls_with_check d session Insert (ActivityRow a) then Inl (Postgrest RlsViolation)
      else if \<not> list_ex (\<lambda>r. pr_id r = l_project_id a) (projects d)
        then Inl (Postgrest (ForeignKeyViolation ''activity_log_project_id_fkey''))
      else if (case l_task_id a of None \<Rightarrow> False
               | Some tid \<Rightarrow> \<not> list_ex (\<lambda>t. t_id t = tid) (tasks d))
        then Inl (Postgrest (ForeignKeyViolation ''activity_log_task_id_fkey''))
      else if (case l_user_id a of None \<Rightarrow> False | Some u \<Rightarrow> u \<notin> set (auth_users d))
        then Inl (Postgrest (ForeignKeyViolation ''activity_log_user_id_fkey''))
      else Inr (d\<lparr>activity_log := activity_log d @ [a]\<rparr>))"

text \<open>
  \<open>DELETE FROM projects WHERE id = pid\<close>, with the referential actions of the schema:
  \<open>tasks\<close>, \<open>custom_fields\<close> and \<open>activity_log\<close> rows of the project are deleted
  (\<open>ON DELETE CASCADE\<close> on their \<open>project_id\<close>), and the remaining \<open>activity_log\<close> rows
  lose their reference to a deleted task (\<open>ON DELETE SET NULL\<close> on \<open>task_id\<close>).
\<close>

definition delete_project :: "db \<Rightarrow> principal option \<Rightarrow> ident \<Rightarrow> db" where
  "delete_project d session pid =
     (let victim = (\<lambda>r. pr_id r = pid \<and> rls_using d session Delete (ProjectRow r))
      in if filter victim (projects d) = [] then d
         else
           let gone = map t_id (filter (\<lambda>t. t_project_id t = pid) (tasks d))
           in d\<lparr>projects := filter (\<lambda>r. \<not> victim r) (projects d),
                tasks := filter (\<lambda>t. t_project_id t \<noteq> pid) (tasks d),
                custom_fields := filter (\<lambda>c. cf_project_id c \<noteq> pid) (custom_fields d),
                activity_log :=
                  null_task_refs gone (filter (\<lambda>a. l_project_id a \<noteq> pid) (activity_log d))\<rparr>)"


text \<open>
  \<open>INSERT INTO projects\<close> and \<open>UPDATE projects ... WHERE id = pid\<close>. The payloads are
  taken to carry columns of \<open>projects\<close> only (name, description, status, team_members,
  created_by, last_modified). The trigger \<open>update_projects_last_modified\<close> stamps a row
  that really changes.
\<close>

definition insert_project ::
  "db \<Rightarrow> principal option \<Rightarrow> timestamp \<Rightarrow> ident \<Rightarrow> project_insert \<Rightarrow> principal option
     \<Rightarrow> error + (project_row \<times> db)" where
  "insert_project d session now new_id pr created_by =
     (let r = \<lparr> pr_id = new_id, pr_name = pi_name pr, pr_description = pi_description pr,
                pr_status = or_else (pi_status pr) Active,
                pr_created_date = now, pr_last_modified = now,
                pr_created_by = created_by,
                pr_team_members = or_else (pi_team_members pr) [] \<rparr>
      in if \<not> rls_with_check d session Insert (ProjectRow r) then Inl (Postgrest RlsViolation)
         else if (case created_by of None \<Rightarrow> False | Some u \<Rightarrow> u \<notin> set (auth_users d))
           then Inl (Postgrest (ForeignKeyViolation ''projects_created_by_fkey''))
         else Inr (r, d\<lparr>projects := projects d @ [r]\<rparr>))"

definition merge_project_row :: "timestamp \<Rightarrow> project_update \<Rightarrow> project_row \<Rightarrow> project_row" where
  "merge_project_row now u r =
     (let r' = r\<lparr> pr_name := or_else (pu_name u) (pr_name r),
                  pr_description := (case pu_description u of None \<Rightarrow> pr_description r
                                     | Some v \<Rightarrow> Some v),
                  pr_status := or_else (pu_status u) (pr_status r),
                  pr_team_members := or_else (pu_team_members u) (pr_team_members r),
                  pr_last_modified := or_else (pu_last_modified u) (pr_last_modified r) \<rparr>
      in if r' \<noteq> r then r'\<lparr>pr_last_modified := now\<rparr> else r')"

definition project_target :: "db \<Rightarrow> principal option \<Rightarrow> ident \<Rightarrow> project_row \<Rightarrow> bool" where
  "project_target d session pid r \<longleftrightarrow>
     pr_id r = pid \<and> rls_using d session Update (ProjectRow r)
       \<and> rls_using d session Select (ProjectRow r)"

definition update_project ::
  "db \<Rightarrow> principal option \<Rightarrow> timestamp \<Rightarrow> ident \<Rightarrow> project_update
     \<Rightarrow> error + (project_row list \<times> db)" where
  "update_project d session now pid updates =
     (let new_rows = map (merge_project_row now updates)
                         (filter (project_target d session pid) (projects d))
      in if list_ex (\<lambda>r'. \<not> rls_with_check d session Update (ProjectRow r')) new_rows
         then Inl (Postgrest RlsViolation)
         else Inr (new_rows,
                   d\<lparr>projects := map (\<lambda>r. if project_target d session pid r
                                            then merge_project_row now updates r else r)
                                      (projects d)\<rparr>))"

section \<open>Managed variant: TaskService\<close>

text \<open>
  Each function returns \<open>Inl e\<close> when the service throws \<open>e\<close> (the database is then the
  one it was called with: a statement that fails, or a mutation whose \<open>.single()\<close> finds
  another number of rows than one, stores nothing) and otherwise its result with the new
  database. \<open>session\<close> is the user of \<open>supabase.auth.getUser()\<close> and of \<open>auth.uid()\<close>.
\<close>

definition logActivity_task_managed ::
  "principal option \<Rightarrow> timestamp \<Rightarrow> ident \<Rightarrow> ident \<Rightarrow> string \<Rightarrow> changes option \<Rightarrow> ident option
     \<Rightarrow> db \<Rightarrow> db" where
  "logActivity_task_managed session now log_id projectId action chg taskId d =
     (case session of
        None \<Rightarrow> d
      | Some user \<Rightarrow>
         (case insert_activity d session
                 (logEntry log_id now projectId user action chg taskId) of
            Inl e \<Rightarrow> d
          | Inr d' \<Rightarrow> d'))"

definition taskData :: "timestamp \<Rightarrow> task_insert \<Rightarrow> task_data" where
  "taskData now ti = \<lparr>
     td_project_id = ti_project_id ti,
     td_name = ti_name ti,
     td_description = or_null (ti_description ti),
     td_task_type = or_else (ti_task_type ti) TaskT,
     td_status = or_else (ti_status ti) NotStarted,
     td_start_date = or_else (ti_start_date ti) (DateString now),
     td_end_date = or_else (ti_end_date ti) (DateString now),
     td_assignee = or_null (ti_assignee ti),
     td_progress = or_else (ti_progress ti) 0,
     td_dependencies = or_else (ti_dependencies ti) [],
     td_custom_fields = or_else (ti_custom_fields ti) [] \<rparr>"

definition createTask_managed ::
  "ident \<Rightarrow> ident \<Rightarrow> timestamp \<Rightarrow> principal option \<Rightarrow> task_insert \<Rightarrow> db \<Rightarrow> error + (task \<times> db)" where
  "createTask_managed new_id log_id now session ti d =
     (case insert_tasks d session now (\<lambda>k. new_id) [taskData now ti] of
        Inl e \<Rightarrow> Inl e
      | Inr (rows, d1) \<Rightarrow>
         (case single rows of
            Inl e \<Rightarrow> Inl e
          | Inr data \<Rightarrow>
              Inr (data,
                   logActivity_task_managed session now log_id (t_project_id data)
                     ''task_created'' (Some (TaskName (t_name data))) (Some (t_id data)) d1)))"

definition updateTask_managed ::
  "ident \<Rightarrow> timestamp \<Rightarrow> principal option \<Rightarrow> ident \<Rightarrow> ident \<Rightarrow> task_update \<Rightarrow> db
     \<Rightarrow> error + (task \<times> db)" where
  "updateTask_managed log_id now session tid projectId updates d =
     (case update_task d session now tid updates of
        Inl e \<Rightarrow> Inl e
      | Inr (rows, d1) \<Rightarrow>
         (case single rows of
            Inl e \<Rightarrow> Inl e
          | Inr data \<Rightarrow>
              Inr (data,
                   logActivity_task_managed session now log_id (t_project_id data)
                     ''task_updated'' (Some (TaskUpdates updates)) (Some tid) d1)))"

definition deleteTask_managed ::
  "ident \<Rightarrow> timestamp \<Rightarrow> principal option \<Rightarrow> ident \<Rightarrow> ident \<Rightarrow> db \<Rightarrow> error + db" where
  "deleteTask_managed log_id now session tid projectId d =
     Inr (logActivity_task_managed session now log_id projectId ''task_deleted''
            (Some (TaskId tid)) (Some tid) (delete_task d session tid))"

definition updateTaskProgress_managed ::
  "ident \<Rightarrow> timestamp \<Rightarrow> principal option \<Rightarrow> ident \<Rightarrow> ident \<Rightarrow> int \<Rightarrow> db \<Rightarrow> error + (task \<times> db)" where
  "updateTaskProgress_managed log_id now session tid projectId progress d =
     (case single (select_task d session tid) of
        Inl e \<Rightarrow> Inl e
      | Inr taskToUpdate \<Rightarrow>
          updateTask_managed log_id now session tid projectId
            (progress_updates progress taskToUpdate) d)"

definition preparedTask :: "timestamp \<Rightarrow> task_insert \<Rightarrow> task_data" where
  "preparedTask now ti = (taskData now ti)\<lparr>td_name := Some (or_str (ti_name ti) ''Untitled Task'')\<rparr>"

definition importTasks_managed ::
  "(nat \<Rightarrow> ident) \<Rightarrow> ident \<Rightarrow> timestamp \<Rightarrow> principal option \<Rightarrow> task_insert list \<Rightarrow> db
     \<Rightarrow> error + (task list \<times> db)" where
  "importTasks_managed gen log_id now session tis d =
     (case insert_tasks d session now gen (map (preparedTask now) tis) of
        Inl e \<Rightarrow> Inl e
      | Inr (data, d1) \<Rightarrow>
         (case data of
            [] \<Rightarrow> Inr (data, d1)
          | first # others \<Rightarrow>
              Inr (data,
                   logActivity_task_managed session now log_id (t_project_id first)
                     ''tasks_imported'' (Some (Count (length data))) None d1)))"

definition getTaskDependencies_managed :: "principal option \<Rightarrow> ident \<Rightarrow> db \<Rightarrow> error + task list" where
  "getTaskDependencies_managed session taskId d =
     (case single (select_task d session taskId) of
        Inl e \<Rightarrow> Inl e
      | Inr t \<Rightarrow>
          if t_dependencies t = [] then Inr []
          else Inr (filter (\<lambda>x. t_id x \<in> set (t_dependencies t)
                                  \<and> rls_using d session Select (TaskRow x)) (tasks d)))"

definition canStartTask_managed :: "principal option \<Rightarrow> ident \<Rightarrow> db \<Rightarrow> error + bool" where
  "canStartTask_managed session taskId d =
     (case getTaskDependencies_managed session taskId d of
        Inl e \<Rightarrow> Inl e
      | Inr dependencies \<Rightarrow> Inr (all_done dependencies))"

section \<open>Managed variant: ProjectService of typeCompatibility.ts\<close>

definition logActivity_managed ::
  "principal option \<Rightarrow> timestamp \<Rightarrow> ident \<Rightarrow> ident \<Rightarrow> principal \<Rightarrow> string \<Rightarrow> changes option
     \<Rightarrow> ident option \<Rightarrow> db \<Rightarrow> db" where
  "logActivity_managed session now log_id projectId userId action chg taskId d =
     (case insert_activity d session
             (logEntry log_id now projectId userId action chg taskId) of
        Inl e \<Rightarrow> d
      | Inr d' \<Rightarrow> d')"

definition createProject_managed ::
  "ident \<Rightarrow> ident \<Rightarrow> timestamp \<Rightarrow> principal option \<Rightarrow> project_insert \<Rightarrow> db
     \<Rightarrow> error + (project_row \<times> db)" where
  "createProject_managed new_id log_id now session pr d =
     (case session of
        None \<Rightarrow> Inl (Error ''User not authenticated'')
      | Some user \<Rightarrow>
         (case insert_project d session now new_id pr (Some user) of
            Inl e \<Rightarrow> Inl e
          | Inr (data, d1) \<Rightarrow>
              Inr (data,
                   logActivity_managed session now log_id (pr_id data) user ''project_created''
                     (Some (ProjectName (pr_name data))) None d1)))"

definition updateProject_managed ::
  "ident \<Rightarrow> timestamp \<Rightarrow> principal option \<Rightarrow> ident \<Rightarrow> project_update \<Rightarrow> db
     \<Rightarrow> error + (project_row \<times> db)" where
  "updateProject_managed log_id now session pid updates d =
     (let finalUpdates = updates\<lparr>pu_last_modified := Some now\<rparr> in
      case session of
        None \<Rightarrow> Inl (Error ''User not authenticated'')
      | Some user \<Rightarrow>
         (case update_project d session now pid finalUpdates of
            Inl e \<Rightarrow> Inl e
          | Inr (rows, d1) \<Rightarrow>
             (case single rows of
                Inl e \<Rightarrow> Inl e
              | Inr data \<Rightarrow>
                  Inr (data,
                       logActivity_managed session now log_id pid user ''project_updated''
                         (Some (ProjectUpdates finalUpdates)) None d1))))"

definition deleteProject_managed ::
  "ident \<Rightarrow> timestamp \<Rightarrow> principal option \<Rightarrow> ident \<Rightarrow> db \<Rightarrow> error + db" where
  "deleteProject_managed log_id now session pid d =
     (case session of
        None \<Rightarrow> Inl (Error ''User not authenticated'')
      | Some user \<Rightarrow>
          Inr (logActivity_managed session now log_id pid user ''project_deleted''
                 (Some (ProjectId pid)) None (delete_project d session pid)))"

section \<open>ProjectService of projectService.ts: raw-SQL and managed branches\<close>

text \<open>
  The raw-SQL branch talks to a table \<open>projects\<close> of a SQL Server database whose schema
  is not part of the sources: \<open>dflt\<close> stands for the values that the table gives to the
  columns an insert leaves out (\<open>id\<close>, \<open>created_date\<close>, \<open>last_modified\<close>, \<open>created_by\<close>).
  \<open>connectToSql\<close> is that of the version of \<open>sql-server.ts\<close> which exports it (the
  version under \<open>src/lib\<close> exports \<open>getRequest\<close> only, and against it the import of
  \<open>projectService.ts\<close> does not resolve, so that no operation of this branch runs).
  \<open>sql_up\<close> tells whether \<open>connectToSql\<close> obtains a pool; without one \<open>pool.request()\<close>
  throws. \<open>session\<close> is the signed-in user of the application; the service never reads it.
\<close>

record sql_state =
  sql_projects :: "project_row list"
  sql_up :: bool

record project_form =
  pf_name :: string
  pf_description :: string
  pf_status :: project_status
  pf_team_members :: "string list"

definition getUserProjects_sqlserver ::
  "principal option \<Rightarrow> sql_state \<Rightarrow> error + project_row list" where
  "getUserProjects_sqlserver session st =
     (if \<not> sql_up st then Inl (Error ''TypeError'')
      else Inr (sql_projects st))"

definition createProject_sqlserver ::
  "project_row \<Rightarrow> principal option \<Rightarrow> project_form \<Rightarrow> sql_state
     \<Rightarrow> error + (project_row \<times> sql_state)" where
  "createProject_sqlserver dflt session pf st =
     (if \<not> sql_up st then Inl (Error ''TypeError'')
      else
        let r = dflt\<lparr> pr_name := pf_name pf, pr_description := Some (pf_description pf),
                       pr_status := pf_status pf, pr_team_members := pf_team_members pf \<rparr>
        in Inr (r, st\<lparr>sql_projects := sql_projects st @ [r]\<rparr>))"

definition getUserProjects_supabase :: "principal option \<Rightarrow> db \<Rightarrow> error + project_row list" where
  "getUserProjects_supabase session d =
     Inr (filter (\<lambda>r. rls_using d session Select (ProjectRow r)) (projects d))"

text \<open>
  The managed branch of \<open>createProject\<close> in the same file: it refuses a caller who is
  not signed in and stores the caller as \<open>created_by\<close>.
\<close>

definition createProject_supabase ::
  "ident \<Rightarrow> timestamp \<Rightarrow> principal option \<Rightarrow> project_form \<Rightarrow> db
     \<Rightarrow> error + (project_row \<times> db)" where
  "createProject_supabase new_id now session pf d =
     (case session of
        None \<Rightarrow> Inl (Error ''User must be authenticated to create a project.'')
      | Some user \<Rightarrow>
          insert_project d session now new_id
            \<lparr> pi_name = pf_name pf, pi_description = Some (pf_description pf),
              pi_status = Some (pf_status pf), pi_team_members = Some (pf_team_members pf) \<rparr>
            (Some user))"


section \<open>Example data\<close>

text \<open>
  A small store and a small database on which the theorems below are instantiated: one
  project \<open>p1\<close> with three tasks, the third depending on the second and on an identifier
  that names no task.
\<close>

definition mk_task :: "ident \<Rightarrow> ident \<Rightarrow> task_status \<Rightarrow> int \<Rightarrow> ident list \<Rightarrow> task" where
  "mk_task tid pid st prog deps = \<lparr> t_id = tid, t_project_id = pid, t_name = ''Task'',
     t_description = None, t_task_type = TaskT, t_status = st, t_start_date = 10,
     t_end_date = 20, t_assignee = None, t_progress = prog, t_dependencies = deps,
     t_custom_fields = [], t_created_at = 1, t_updated_at = 1 \<rparr>"

definition ex_tasks :: "task list" where
  "ex_tasks = [mk_task ''t1'' ''p1'' OnHold 30 [], mk_task ''t2'' ''p1'' Completed 100 [],
               mk_task ''t3'' ''p1'' NotStarted 0 [''t2'', ''ghost'']]"

definition ex_project :: project where
  "ex_project = \<lparr> p_id = ''p1'', p_name = ''Sample Project'', p_description = [],
     p_status = Active, p_created_at = 1, p_last_modified = 1, p_created_by = ''demo_user'',
     p_team_members = [''Demo User''], p_tasks = Some ex_tasks, p_custom_fields = [],
     p_lastModified = None \<rparr>"

definition ex_store :: demo_state where
  "ex_store = \<lparr> ls_projects = [ex_project], ls_log = [], demoProjects = [ex_project],
     demoActivityLog = [] \<rparr>"

definition ex_row :: project_row where
  "ex_row = \<lparr> pr_id = ''p1'', pr_name = ''Sample Project'', pr_description = None,
     pr_status = Active, pr_created_date = 1, pr_last_modified = 1,
     pr_created_by = Some ''alice'', pr_team_members = [''bob''] \<rparr>"

definition ex_db :: db where
  "ex_db = \<lparr> projects = [ex_row], tasks = ex_tasks, custom_fields = [], activity_log = [],
     auth_users = [''alice'', ''bob'', ''carol''] \<rparr>"

definition mk_insert :: "ident option \<Rightarrow> string \<Rightarrow> timestamp \<Rightarrow> timestamp \<Rightarrow> task_insert" where
  "mk_insert pid nm start_d end_d = \<lparr> ti_project_id = pid, ti_name = Some nm,
     ti_description = None, ti_task_type = None, ti_status = None,
     ti_start_date = Some (DateString start_d), ti_end_date = Some (DateString end_d),
     ti_assignee = None,
     ti_progress = None, ti_dependencies = None, ti_custom_fields = None \<rparr>"

text \<open>
  Five specifications, the third with a start date that does not parse, and a source of
  keys.
\<close>

definition ex_specs :: "task_insert list" where
  "ex_specs = [mk_insert (Some ''p1'') ''A'' 1 2, mk_insert (Some ''p1'') ''B'' 1 2,
               (mk_insert (Some ''p1'') ''C'' 1 2)\<lparr>ti_start_date := Some InvalidDate\<rparr>,
               mk_insert (Some ''p1'') ''D'' 1 2,
               mk_insert (Some ''p1'') ''E'' 1 2]"

definition ex_gen :: "nat \<Rightarrow> ident" where
  "ex_gen k = replicate (Suc k) CHR ''n''"

text \<open>
  The round trip in the managed variant: \<open>alice\<close> creates a project and three tasks
  under it (\<open>ex_before\<close>), then deletes the project (\<open>ex_after\<close>). \<open>ex_shared_db\<close> has a
  second project whose log refers to a task of the first.
\<close>

definition ex_empty_db :: db where
  "ex_empty_db = \<lparr> projects = [], tasks = [], custom_fields = [], activity_log = [],
     auth_users = [''alice''] \<rparr>"

definition ex_before :: "error + db" where
  "ex_before =
     (case createProject_managed ''p1'' ''l0'' 1 (Some ''alice'')
             \<lparr> pi_name = ''Plan'', pi_description = None, pi_status = None,
               pi_team_members = None \<rparr> ex_empty_db of
        Inl e \<Rightarrow> Inl e
      | Inr (r, d1) \<Rightarrow>
         (case createTask_managed ''t1'' ''l1'' 2 (Some ''alice'')
                 (mk_insert (Some ''p1'') ''A'' 1 2) d1 of
            Inl e \<Rightarrow> Inl e
          | Inr (t1, d2) \<Rightarrow>
             (case createTask_managed ''t2'' ''l2'' 3 (Some ''alice'')
                     (mk_insert (Some ''p1'') ''B'' 1 2) d2 of
                Inl e \<Rightarrow> Inl e
              | Inr (t2, d3) \<Rightarrow>
                 (case createTask_managed ''t3'' ''l3'' 4 (Some ''alice'')
                         (mk_insert (Some ''p1'') ''C'' 1 2) d3 of
                    Inl e \<Rightarrow> Inl e
                  | Inr (t3, d4) \<Rightarrow> Inr d4))))"

definition ex_after :: "error + db" where
  "ex_after =
     (case ex_before of
        Inl e \<Rightarrow> Inl e
      | Inr d4 \<Rightarrow> deleteProject_managed ''l4'' 5 (Some ''alice'') ''p1'' d4)"

definition ex_shared_db :: db where
  "ex_shared_db = ex_db\<lparr>
     projects := [ex_row, ex_row\<lparr>pr_id := ''p2''\<rparr>],
     activity_log :=
       [logEntry ''l1'' 2 ''p1'' ''alice'' ''task_created'' (Some (TaskName ''Task'')) (Some ''t1''),
        logEntry ''l2'' 3 ''p2'' ''alice'' ''task_updated'' None (Some ''t1''),
        logEntry ''l3'' 4 ''p2'' ''alice'' ''project_updated'' None None]\<rparr>"

section \<open>Helper lemmas\<close>

lemma findIndex_Some:
  "findIndex P xs = Some i \<Longrightarrow> i < length xs \<and> P (xs ! i) \<and> find P xs = Some (xs ! i)"
proof (induction xs arbitrary: i)
  case Nil
  then show ?case by simp
next
  case (Cons x xs)
  then show ?case by (cases "P x") auto
qed

lemma find_findIndex:
  "find P xs = Some x \<Longrightarrow> \<exists>i. findIndex P xs = Some i \<and> xs ! i = x"
proof (induction xs)
  case Nil
  then show ?case by simp
next
  case (Cons y ys)
  then show ?case by (cases "P y") auto
qed

lemma find_update_first:
  "findIndex (\<lambda>p. f p = a) xs = Some i \<Longrightarrow> f y = a \<Longrightarrow>
     find (\<lambda>p. f p = b) (xs[i := y]) = (if b = a then Some y else find (\<lambda>p. f p = b) xs)"
proof (induction xs arbitrary: i)
  case Nil
  then show ?case by simp
next
  case (Cons x xs)
  show ?case
  proof (cases "f x = a")
    case True
    with Cons.prems show ?thesis by auto
  next
    case False
    with Cons.prems obtain j where j: "findIndex (\<lambda>p. f p = a) xs = Some j" "i = Suc j"
      by auto
    from Cons.IH[OF j(1) Cons.prems(2)] False j(2) show ?thesis by auto
  qed
qed

lemma single_Inr: "single rows = Inr x \<longleftrightarrow> rows = [x]"
  by (auto simp: single_def split: list.splits)

lemma sum_not_isl: "\<not> isl r \<Longrightarrow> \<exists>x. r = Inr x"
  by (cases r) auto

subsection \<open>The local task store\<close>

lemma getProjectTasks_demo_find:
  assumes "find (\<lambda>t. t_id t = tid) (getProjectTasks_demo pid s) = Some T"
  shows "\<exists>P ts. find (\<lambda>p. p_id p = pid) (ls_projects s) = Some P \<and> p_tasks P = Some ts
           \<and> getProjectTasks_demo pid s = ts \<and> find (\<lambda>t. t_id t = tid) ts = Some T"
  using assms
  by (auto simp: getProjectTasks_demo_def loadDemoProjects_def or_else_def split: option.splits)

lemma updateTask_demo_found:
  assumes "find (\<lambda>p. p_id p = pid) (ls_projects s) = Some P" "p_tasks P = Some ts"
    "find (\<lambda>t. t_id t = tid) ts = Some T"
  shows "\<exists>i j. i < length (ls_projects s) \<and> ls_projects s ! i = P
        \<and> j < length ts \<and> ts ! j = T
        \<and> findIndex (\<lambda>p. p_id p = pid) (ls_projects s) = Some i
        \<and> findIndex (\<lambda>t. t_id t = tid) ts = Some j
        \<and> updateTask_demo now tid pid u s =
           Inr ((merge_updates T u)\<lparr>t_updated_at := now\<rparr>,
                s\<lparr>ls_projects := (ls_projects s)[i := P\<lparr>p_tasks :=
                     Some (ts[j := (merge_updates T u)\<lparr>t_updated_at := now\<rparr>])\<rparr>]\<rparr>)"
proof -
  from find_findIndex[OF assms(1)] obtain i where
    i: "findIndex (\<lambda>p. p_id p = pid) (ls_projects s) = Some i" "ls_projects s ! i = P"
    by blast
  from find_findIndex[OF assms(3)] obtain j where
    j: "findIndex (\<lambda>t. t_id t = tid) ts = Some j" "ts ! j = T"
    by blast
  have "i < length (ls_projects s)" "j < length ts"
    using findIndex_Some[OF i(1)] findIndex_Some[OF j(1)] by simp_all
  then show ?thesis using i j assms(2)
    by (auto simp add: updateTask_demo_def loadDemoProjects_def saveDemoProjects_def Let_def)
qed

lemma updateTaskProgress_demo_found:
  assumes "find (\<lambda>p. p_id p = pid) (ls_projects s) = Some P" "p_tasks P = Some ts"
    "find (\<lambda>t. t_id t = tid) ts = Some T"
  shows "updateTaskProgress_demo now tid pid p s
           = updateTask_demo now tid pid (progress_updates p T) s"
  using assms by (simp add: updateTaskProgress_demo_def loadDemoProjects_def)

lemma merge_progress:
  "merge_updates T (progress_updates p T)
     = T\<lparr>t_status := newStatus p (t_status T), t_progress := p\<rparr>"
  by (simp add: merge_updates_def progress_updates_def no_updates_def Let_def)

lemma updated_row_progress:
  "(updated_row now (progress_updates p T) T)
      \<lparr>t_progress := t_progress T, t_status := t_status T, t_updated_at := t_updated_at T\<rparr> = T"
  by (simp add: updated_row_def merge_progress Let_def)


subsection \<open>The managed task table\<close>

lemma insert_activity_frame:
  "insert_activity d session a = Inr d' \<Longrightarrow> d' = d\<lparr>activity_log := activity_log d @ [a]\<rparr>"
  by (auto simp: insert_activity_def split: if_splits)

lemma logActivity_task_managed_cases:
  "logActivity_task_managed session now log_id pid action chg tid d = d \<or>
   (\<exists>a. logActivity_task_managed session now log_id pid action chg tid d
          = d\<lparr>activity_log := activity_log d @ [a]\<rparr>)"
  by (auto simp: logActivity_task_managed_def split: option.splits sum.splits
           dest: insert_activity_frame)

lemma logActivity_task_managed_tasks [simp]:
  "tasks (logActivity_task_managed session now log_id pid action chg tid d) = tasks d"
  using logActivity_task_managed_cases[of session now log_id pid action chg tid d] by auto

lemma updateTask_managed_Inr:
  assumes "updateTask_managed log_id now session tid pid u d = Inr (t', d')"
  shows "\<exists>T0. filter (update_target d session tid) (tasks d) = [T0]
     \<and> t' = updated_row now u T0
     \<and> tasks d' = map (\<lambda>t. if update_target d session tid t
                            then updated_row now u t else t) (tasks d)"
  using assms
  by (auto simp: updateTask_managed_def update_task_def Let_def single_Inr
           split: option.splits sum.splits)

lemma target_sub_select:
  "filter (update_target d session tid) xs
     = filter (\<lambda>t. rls_using d session Update (TaskRow t))
         (filter (\<lambda>t. t_id t = tid \<and> rls_using d session Select (TaskRow t)) xs)"
  by (auto simp: update_target_def intro: filter_cong)

lemma updateTaskProgress_managed_Inr:
  assumes "updateTaskProgress_managed log_id now session tid pid p d = Inr (t', d')"
      and "single (select_task d session tid) = Inr T"
  shows "filter (update_target d session tid) (tasks d) = [T]
     \<and> t' = updated_row now (progress_updates p T) T
     \<and> tasks d' = map (\<lambda>t. if update_target d session tid t
                            then updated_row now (progress_updates p T) t else t) (tasks d)"
proof -
  from assms have u:
    "updateTask_managed log_id now session tid pid (progress_updates p T) d = Inr (t', d')"
    by (simp add: updateTaskProgress_managed_def)
  from assms(2) have sel:
    "filter (\<lambda>t. t_id t = tid \<and> rls_using d session Select (TaskRow t)) (tasks d) = [T]"
    by (simp add: single_Inr select_task_def)
  from updateTask_managed_Inr[OF u] obtain T0 where
    T0: "filter (update_target d session tid) (tasks d) = [T0]"
        "t' = updated_row now (progress_updates p T) T0"
        "tasks d' = map (\<lambda>t. if update_target d session tid t
                              then updated_row now (progress_updates p T) t else t) (tasks d)"
    by blast
  from T0(1) sel have "T0 = T"
    by (auto simp: target_sub_select split: if_splits)
  with T0 show ?thesis by simp
qed

lemma merge_updates_keys [simp]:
  "t_id (merge_updates t u) = t_id t" "t_project_id (merge_updates t u) = t_project_id t"
  by (simp_all add: merge_updates_def)

lemma updated_row_keys [simp]:
  "t_id (updated_row now u t) = t_id t" "t_project_id (updated_row now u t) = t_project_id t"
  by (simp_all add: updated_row_def Let_def)


lemma logActivity_task_managed_projects [simp]:
  "projects (logActivity_task_managed session now log_id pid action chg tid d) = projects d"
  using logActivity_task_managed_cases[of session now log_id pid action chg tid d] by auto









section \<open>Progress and status\<close>



section \<open>Frame of a progress update\<close>

text \<open>
  Claim C9. A successful \<open>updateTaskProgress\<close> on the task \<open>T\<close> returns a task that
  differs from \<open>T\<close> at most in progress, status and \<open>updated_at\<close>, and the stored tasks
  afterwards are the stored tasks before with \<open>T\<close> replaced by that task: in the local
  variant the store changes at the one position of \<open>T\<close> in its project, in the managed
  variant the table \<open>tasks\<close> changes at the row \<open>T\<close> only.
\<close>

theorem updateTaskProgress_frame:
  "(find (\<lambda>t. t_id t = tid) (getProjectTasks_demo pid s) = Some T
      \<and> updateTaskProgress_demo now tid pid p s = Inr (t', s') \<longrightarrow>
        t'\<lparr>t_progress := t_progress T, t_status := t_status T,
            t_updated_at := t_updated_at T\<rparr> = T
        \<and> (\<exists>i j P ts. i < length (ls_projects s) \<and> ls_projects s ! i = P \<and> p_id P = pid
              \<and> p_tasks P = Some ts \<and> j < length ts \<and> ts ! j = T
              \<and> s' = s\<lparr>ls_projects := (ls_projects s)[i := P\<lparr>p_tasks := Some (ts[j := t'])\<rparr>]\<rparr>))
   \<and> (single (select_task d session tid) = Inr T
      \<and> updateTaskProgress_managed log_id now session tid pid p d = Inr (t2, d2) \<longrightarrow>
        t2\<lparr>t_progress := t_progress T, t_status := t_status T,
            t_updated_at := t_updated_at T\<rparr> = T
        \<and> tasks d2 = map (\<lambda>t. if t = T then t2 else t) (tasks d))"
proof (intro conjI impI)
  assume a: "find (\<lambda>t. t_id t = tid) (getProjectTasks_demo pid s) = Some T
      \<and> updateTaskProgress_demo now tid pid p s = Inr (t', s')"
  from getProjectTasks_demo_find[of tid pid s T] a obtain P ts where
    P: "find (\<lambda>p. p_id p = pid) (ls_projects s) = Some P" "p_tasks P = Some ts"
       "find (\<lambda>t. t_id t = tid) ts = Some T" by blast
  have pid: "p_id P = pid" using P(1) by (auto simp: find_Some_iff)
  from updateTask_demo_found[OF P, of now "progress_updates p T"] obtain i j where
    ij: "i < length (ls_projects s)" "ls_projects s ! i = P" "j < length ts" "ts ! j = T"
      "updateTask_demo now tid pid (progress_updates p T) s =
           Inr ((merge_updates T (progress_updates p T))\<lparr>t_updated_at := now\<rparr>,
                s\<lparr>ls_projects := (ls_projects s)[i := P\<lparr>p_tasks :=
                  Some (ts[j := (merge_updates T (progress_updates p T))\<lparr>t_updated_at := now\<rparr>])\<rparr>]\<rparr>)"
    by blast
  from a ij(5) updateTaskProgress_demo_found[OF P, of now p]
  have eq: "Inr (t', s') =
      (Inr ((merge_updates T (progress_updates p T))\<lparr>t_updated_at := now\<rparr>,
            s\<lparr>ls_projects := (ls_projects s)[i := P\<lparr>p_tasks :=
               Some (ts[j := (merge_updates T (progress_updates p T))\<lparr>t_updated_at := now\<rparr>])\<rparr>]\<rparr>)
        :: error + (task \<times> demo_state))"
    by metis
  then have t': "t' = (merge_updates T (progress_updates p T))\<lparr>t_updated_at := now\<rparr>"
    by blast
  from eq have s':
    "s' = s\<lparr>ls_projects := (ls_projects s)[i := P\<lparr>p_tasks := Some (ts[j := t'])\<rparr>]\<rparr>"
    unfolding t' by blast
  show "t'\<lparr>t_progress := t_progress T, t_status := t_status T,
           t_updated_at := t_updated_at T\<rparr> = T"
    unfolding t' merge_progress by simp
  show "\<exists>i j P ts. i < length (ls_projects s) \<and> ls_projects s ! i = P \<and> p_id P = pid
              \<and> p_tasks P = Some ts \<and> j < length ts \<and> ts ! j = T
              \<and> s' = s\<lparr>ls_projects := (ls_projects s)[i := P\<lparr>p_tasks := Some (ts[j := t'])\<rparr>]\<rparr>"
    using ij(1-4) pid P(2) s' by blast
next
  assume b: "single (select_task d session tid) = Inr T
      \<and> updateTaskProgress_managed log_id now session tid pid p d = Inr (t2, d2)"
  from updateTaskProgress_managed_Inr[of log_id now session tid pid p d t2 d2 T] b
  have f: "filter (update_target d session tid) (tasks d) = [T]"
    and t2: "t2 = updated_row now (progress_updates p T) T"
    and d2: "tasks d2 = map (\<lambda>t. if update_target d session tid t
                            then updated_row now (progress_updates p T) t else t) (tasks d)"
    by simp_all
  show "t2\<lparr>t_progress := t_progress T, t_status := t_status T,
           t_updated_at := t_updated_at T\<rparr> = T"
    unfolding t2 by (rule updated_row_progress)
  have "\<And>t. t \<in> set (tasks d) \<Longrightarrow> update_target d session tid t \<longleftrightarrow> t = T"
  proof -
    fix t assume "t \<in> set (tasks d)"
    then have "update_target d session tid t
                 \<longleftrightarrow> t \<in> set (filter (update_target d session tid) (tasks d))"
      by simp
    then show "update_target d session tid t \<longleftrightarrow> t = T" unfolding f by simp
  qed
  then show "tasks d2 = map (\<lambda>t. if t = T then t2 else t) (tasks d)"
    unfolding d2 t2 by (auto intro!: map_cong)
qed

theorem updateTaskProgress_frame_witness:
  "(\<exists>t' s'. updateTaskProgress_demo 7 ''t1'' ''p1'' 50 ex_store = Inr (t', s')
       \<and> t'\<lparr>t_progress := 30, t_status := OnHold, t_updated_at := 1\<rparr>
           = mk_task ''t1'' ''p1'' OnHold 30 [])
   \<and> (\<exists>t2 d2. updateTaskProgress_managed ''l1'' 7 (Some ''alice'') ''t1'' ''p1'' 50 ex_db
                  = Inr (t2, d2)
       \<and> tasks d2 = [t2, mk_task ''t2'' ''p1'' Completed 100 [],
                     mk_task ''t3'' ''p1'' NotStarted 0 [''t2'', ''ghost'']])"
proof -
  let ?T = "mk_task ''t1'' ''p1'' OnHold 30 []"
  have h1: "find (\<lambda>t. t_id t = ''t1'') (getProjectTasks_demo ''p1'' ex_store) = Some ?T"
    by code_simp
  have "\<not> isl (updateTaskProgress_demo 7 ''t1'' ''p1'' 50 ex_store)"
    by code_simp
  then obtain t' s' where
    h0: "updateTaskProgress_demo 7 ''t1'' ''p1'' 50 ex_store = Inr (t', s')"
    using sum_not_isl by fastforce
  have h2: "single (select_task ex_db (Some ''alice'') ''t1'') = Inr ?T"
    by code_simp
  have "\<not> isl (updateTaskProgress_managed ''l1'' 7 (Some ''alice'') ''t1'' ''p1'' 50 ex_db)"
    by code_simp
  then obtain t2 d2 where
    h3: "updateTaskProgress_managed ''l1'' 7 (Some ''alice'') ''t1'' ''p1'' 50 ex_db = Inr (t2, d2)"
    using sum_not_isl by fastforce
  have st: "t_status ?T = OnHold" "t_progress ?T = 30" "t_updated_at ?T = 1"
    by (simp_all add: mk_task_def)
  have neq: "mk_task ''t2'' ''p1'' Completed 100 [] \<noteq> ?T"
    "mk_task ''t3'' ''p1'' NotStarted 0 [''t2'', ''ghost''] \<noteq> ?T"
    by (simp_all add: mk_task_def)
  from updateTaskProgress_frame[of "''t1''" "''p1''" ex_store ?T 7 50 t' s' ex_db
      "Some ''alice''" "''l1''" t2 d2] h1 h0 h2 h3
  have "t'\<lparr>t_progress := t_progress ?T, t_status := t_status ?T,
            t_updated_at := t_updated_at ?T\<rparr> = ?T"
    and "tasks d2 = map (\<lambda>t. if t = ?T then t2 else t) (tasks ex_db)"
    by blast+
  then show ?thesis using h0 h3 neq
    by (simp add: st ex_db_def ex_tasks_def)
qed

section \<open>Deleting what is not there\<close>

lemma filter_all_id: "(\<forall>x\<in>set xs. P x) \<Longrightarrow> filter P xs = xs"
  by (induction xs) auto

lemma deleteProject_demo_missing:
  assumes "pid \<notin> p_id ` set (demoProjects s)"
  shows "deleteProject_demo log_id now pid s = Inr s"
proof -
  from assms have "filter (\<lambda>p. p_id p \<noteq> pid) (demoProjects s) = demoProjects s"
    by (intro filter_all_id) auto
  then show ?thesis by (simp add: deleteProject_demo_def Let_def)
qed

lemma deleteProject_demo_removes:
  "deleteProject_demo log_id now pid s = Inr s1 \<Longrightarrow> pid \<notin> p_id ` set (demoProjects s1)"
  by (auto simp: deleteProject_demo_def Let_def logActivity_demo_def saveProjects_def
           split: if_splits)

lemma deleteTask_demo_missing:
  assumes "tid \<notin> t_id ` set (getProjectTasks_demo pid s)"
  shows "deleteTask_demo tid pid s = Inl (Error ''Task not found'')"
proof (cases "findIndex (\<lambda>p. p_id p = pid) (ls_projects s)")
  case None
  then show ?thesis by (simp add: deleteTask_demo_def loadDemoProjects_def)
next
  case (Some i)
  note idx = this
  from findIndex_Some[OF idx]
  have f: "find (\<lambda>p. p_id p = pid) (ls_projects s) = Some (ls_projects s ! i)"
    by simp
  show ?thesis
  proof (cases "p_tasks (ls_projects s ! i)")
    case None
    with idx show ?thesis by (simp add: deleteTask_demo_def loadDemoProjects_def)
  next
    case (Some ts)
    with f assms have "\<forall>t\<in>set ts. t_id t \<noteq> tid"
      by (auto simp: getProjectTasks_demo_def loadDemoProjects_def or_else_def)
    then have "filter (\<lambda>t. t_id t \<noteq> tid) ts = ts" by (rule filter_all_id)
    with Some idx show ?thesis
      by (simp add: deleteTask_demo_def loadDemoProjects_def Let_def)
  qed
qed

text \<open>
  Claim C10. In the local variant \<open>deleteProject\<close> never throws; called with an
  identifier that names no project it returns the state it was given (projects, stored
  projects and activity log unchanged), so a second deletion of the same project changes
  nothing. \<open>deleteTask\<close> with an identifier that names no task of the project throws
  \<open>Task not found\<close>.
\<close>

theorem delete_missing_demo:
  "(\<exists>s1. deleteProject_demo log_id now pid s = Inr s1
      \<and> deleteProject_demo log_id2 now2 pid s1 = Inr s1)
   \<and> (pid \<notin> p_id ` set (demoProjects s) \<longrightarrow> deleteProject_demo log_id now pid s = Inr s)
   \<and> (tid \<notin> t_id ` set (getProjectTasks_demo projectId s) \<longrightarrow>
        deleteTask_demo tid projectId s = Inl (Error ''Task not found''))"
proof (intro conjI impI)
  obtain s1 where s1: "deleteProject_demo log_id now pid s = Inr s1"
    by (cases "length (filter (\<lambda>p. p_id p \<noteq> pid) (demoProjects s)) < length (demoProjects s)")
       (simp_all add: deleteProject_demo_def Let_def)
  from deleteProject_demo_missing[OF deleteProject_demo_removes[OF s1]] s1
  show "\<exists>s1. deleteProject_demo log_id now pid s = Inr s1
      \<and> deleteProject_demo log_id2 now2 pid s1 = Inr s1" by blast
next
  assume "pid \<notin> p_id ` set (demoProjects s)"
  then show "deleteProject_demo log_id now pid s = Inr s" by (rule deleteProject_demo_missing)
next
  assume "tid \<notin> t_id ` set (getProjectTasks_demo projectId s)"
  then show "deleteTask_demo tid projectId s = Inl (Error ''Task not found'')"
    by (rule deleteTask_demo_missing)
qed

theorem delete_missing_demo_witness:
  "deleteProject_demo ''l1'' 7 ''nope'' ex_store = Inr ex_store
   \<and> deleteTask_demo ''nope'' ''p1'' ex_store = Inl (Error ''Task not found'')"
proof -
  have a: "''nope'' \<notin> p_id ` set (demoProjects ex_store)" by code_simp
  have b: "''nope'' \<notin> t_id ` set (getProjectTasks_demo ''p1'' ex_store)" by code_simp
  from delete_missing_demo[where pid = "''nope''" and s = ex_store and tid = "''nope''"
      and projectId = "''p1''" and log_id = "''l1''" and now = 7] a b
  show ?thesis by blast
qed

section \<open>The authorization gate\<close>

lemma can_access_project_unique:
  assumes "distinct (map pr_id (projects d))" "X \<in> set (projects d)"
  shows "can_access_project d P (pr_id X) \<longleftrightarrow> row_access P X"
proof
  assume "can_access_project d P (pr_id X)"
  then obtain r where r: "r \<in> set (projects d)" "pr_id r = pr_id X" "row_access P r"
    by (auto simp: can_access_project_def list_ex_iff)
  from assms(1) have "inj_on pr_id (set (projects d))" by (simp add: distinct_map)
  with r(1,2) assms(2) have "r = X" by (auto dest: inj_onD)
  with r(3) show "row_access P X" by simp
next
  assume "row_access P X"
  with assms(2) show "can_access_project d P (pr_id X)"
    by (auto simp: can_access_project_def list_ex_iff)
qed

text \<open>
  Claim C1, as the policies have it. For a project \<open>X\<close> of the table (whose primary key
  is unique), \<open>can_access_project\<close> holds of a principal \<open>P\<close> and the key of \<open>X\<close> exactly
  when \<open>P\<close> is \<open>created_by\<close> of \<open>X\<close> or occurs in its \<open>team_members\<close>. That predicate is
  the policy for select, update (old and new row) and delete on \<open>projects\<close>, for all four
  operations on \<open>tasks\<close> and \<open>custom_fields\<close> (through the row's \<open>project_id\<close>) and for
  select on \<open>activity_log\<close>; insert on \<open>activity_log\<close> requires in addition that
  \<open>user_id\<close> is the principal; insert on \<open>projects\<close> requires that the principal is
  \<open>created_by\<close> of the new row, and membership in \<open>team_members\<close> does not suffice.
\<close>

theorem authorization_gate:
  "(distinct (map pr_id (projects d)) \<and> X \<in> set (projects d) \<longrightarrow>
      (can_access_project d P (pr_id X)
         \<longleftrightarrow> Some P = pr_created_by X \<or> P \<in> set (pr_team_members X)))
   \<and> policy_using d P Select (ProjectRow r)
        = (Some P = pr_created_by r \<or> P \<in> set (pr_team_members r))
   \<and> policy_using d P Update (ProjectRow r)
        = (Some P = pr_created_by r \<or> P \<in> set (pr_team_members r))
   \<and> policy_with_check d P Update (ProjectRow r)
        = (Some P = pr_created_by r \<or> P \<in> set (pr_team_members r))
   \<and> policy_using d P Delete (ProjectRow r)
        = (Some P = pr_created_by r \<or> P \<in> set (pr_team_members r))
   \<and> policy_with_check d P Insert (ProjectRow r) = (Some P = pr_created_by r)
   \<and> policy_using d P Select (TaskRow t) = can_access_project d P (t_project_id t)
   \<and> policy_with_check d P Insert (TaskRow t) = can_access_project d P (t_project_id t)
   \<and> policy_using d P Update (TaskRow t) = can_access_project d P (t_project_id t)
   \<and> policy_with_check d P Update (TaskRow t) = can_access_project d P (t_project_id t)
   \<and> policy_using d P Delete (TaskRow t) = can_access_project d P (t_project_id t)
   \<and> policy_using d P Select (CustomFieldRow c) = can_access_project d P (cf_project_id c)
   \<and> policy_with_check d P Insert (CustomFieldRow c) = can_access_project d P (cf_project_id c)
   \<and> policy_using d P Update (CustomFieldRow c) = can_access_project d P (cf_project_id c)
   \<and> policy_with_check d P Update (CustomFieldRow c) = can_access_project d P (cf_project_id c)
   \<and> policy_using d P Delete (CustomFieldRow c) = can_access_project d P (cf_project_id c)
   \<and> policy_using d P Select (ActivityRow a) = can_access_project d P (l_project_id a)
   \<and> policy_with_check d P Insert (ActivityRow a)
        = (l_user_id a = Some P \<and> can_access_project d P (l_project_id a))"
proof -
  have "distinct (map pr_id (projects d)) \<and> X \<in> set (projects d) \<longrightarrow>
      (can_access_project d P (pr_id X)
         \<longleftrightarrow> Some P = pr_created_by X \<or> P \<in> set (pr_team_members X))"
    using can_access_project_unique[of d X P] by (simp add: row_access_def)
  then show ?thesis by (simp add: row_access_def)
qed

theorem authorization_gate_witness:
  "can_access_project ex_db ''bob'' ''p1'' \<and> \<not> can_access_project ex_db ''carol'' ''p1''"
proof -
  have h: "distinct (map pr_id (projects ex_db)) \<and> ex_row \<in> set (projects ex_db)"
    by (simp add: ex_db_def)
  have k: "pr_id ex_row = ''p1''" "pr_created_by ex_row = Some ''alice''"
     "pr_team_members ex_row = [''bob'']"
    by (simp_all add: ex_row_def)
  from authorization_gate[of ex_db ex_row "''bob''"] authorization_gate[of ex_db ex_row "''carol''"] h
  show ?thesis unfolding k by simp
qed

text \<open>
  A team member who is not the owner passes the access predicate on a project row and
  is refused the insert of that row: the insert policy of \<open>projects\<close> is not the predicate.
\<close>

theorem project_insert_gate_counterexample:
  "(Some ''bob'' = pr_created_by ex_row \<or> ''bob'' \<in> set (pr_team_members ex_row))
   \<and> \<not> policy_with_check ex_db ''bob'' Insert (ProjectRow ex_row)
   \<and> insert_project ex_db (Some ''bob'') 5 ''p2''
        \<lparr> pi_name = ''Plan'', pi_description = None, pi_status = None,
          pi_team_members = Some [''bob''] \<rparr> (Some ''alice'')
       = Inl (Postgrest RlsViolation)"
  by (simp add: ex_row_def insert_project_def rls_with_check_def or_else_def)

section \<open>The raw-SQL branch\<close>

text \<open>
  Neither operation of the raw-SQL branch reads the signed-in user: \<open>getUserProjects\<close>
  returns every row of the table and \<open>createProject\<close> appends the row built from the
  form, with the table's default owner. The managed branch returns exactly the rows that
  the principal owns or is a team member of.
\<close>

lemma sqlserver_ignores_session:
  "(sql_up st \<longrightarrow> getUserProjects_sqlserver session st = Inr (sql_projects st))
   \<and> getUserProjects_sqlserver session st = getUserProjects_sqlserver session' st
   \<and> createProject_sqlserver dflt session pf st = createProject_sqlserver dflt session' pf st
   \<and> (sql_up st \<longrightarrow>
        (\<exists>r. createProject_sqlserver dflt session pf st
                 = Inr (r, st\<lparr>sql_projects := sql_projects st @ [r]\<rparr>)
             \<and> pr_created_by r = pr_created_by dflt \<and> pr_id r = pr_id dflt
             \<and> pr_name r = pf_name pf \<and> pr_description r = Some (pf_description pf)
             \<and> pr_status r = pf_status pf \<and> pr_team_members r = pf_team_members pf))
   \<and> getUserProjects_supabase (Some P) d
        = Inr (filter (\<lambda>r. Some P = pr_created_by r \<or> P \<in> set (pr_team_members r))
                 (projects d))"
  by (simp add: getUserProjects_sqlserver_def createProject_sqlserver_def
        getUserProjects_supabase_def rls_using_def row_access_def Let_def)

text \<open>
  Claim C2. In the raw-SQL variant every service operation that reads or mutates
  project data is to evaluate the access predicate before it issues its SQL statement,
  so that no project which a principal cannot access is returned or mutated. The code
  does not do so. With one project owned by \<open>alice\<close> with team member \<open>bob\<close> in the
  table, \<open>getUserProjects\<close> of the raw-SQL branch returns that project to \<open>carol\<close>, who can
  not access it, where the managed branch returns her nothing; and \<open>createProject\<close> of
  the raw-SQL branch stores a project for a caller who is not signed in and records no
  owner, where the managed branch of the same function throws for that caller and
  stores a signed-in caller as \<open>created_by\<close>.
\<close>

theorem sqlserver_returns_inaccessible:
  "getUserProjects_sqlserver (Some ''carol'') \<lparr> sql_projects = [ex_row], sql_up = True \<rparr>
     = Inr [ex_row]
   \<and> row_access ''carol'' ex_row = False
   \<and> getUserProjects_supabase (Some ''carol'') ex_db = Inr []
   \<and> (case createProject_sqlserver (ex_row\<lparr>pr_id := ''p2'', pr_created_by := None\<rparr>) None
             \<lparr> pf_name = ''Plan'', pf_description = [], pf_status = Active,
               pf_team_members = [] \<rparr>
             \<lparr> sql_projects = [ex_row], sql_up = True \<rparr> of
         Inl e \<Rightarrow> False
       | Inr (r, st') \<Rightarrow> pr_created_by r = None \<and> sql_projects st' = [ex_row, r])
   \<and> createProject_supabase ''p2'' 7 None
         \<lparr> pf_name = ''Plan'', pf_description = [], pf_status = Active,
           pf_team_members = [] \<rparr> ex_db
       = Inl (Error ''User must be authenticated to create a project.'')
   \<and> (case createProject_supabase ''p2'' 7 (Some ''carol'')
             \<lparr> pf_name = ''Plan'', pf_description = [], pf_status = Active,
               pf_team_members = [] \<rparr> ex_db of
         Inl e \<Rightarrow> False
       | Inr (r, d') \<Rightarrow> pr_created_by r = Some ''carol'')"
  by code_simp

section \<open>Dependency gating\<close>

lemma all_done_iff:
  "all_done ds \<longleftrightarrow> (\<forall>x\<in>set ds. t_status x = Completed \<or> t_status x = Done)"
  by (cases ds) (auto simp: all_done_def list_all_iff)

text \<open>
  Claim C4, as the code has it. \<open>canStartTask\<close> looks at the tasks that the dependency
  list resolves to and ignores identifiers that resolve to none. Local variant: with \<open>P\<close>
  the first stored project that holds a task with the given id and \<open>T\<close> the first such
  task of \<open>P\<close>, the result is true exactly when every task of \<open>P\<close> whose id occurs in the
  dependencies of \<open>T\<close> is completed or done; when no project holds the task the result is
  true. Managed variant: with \<open>T\<close> the one visible row with the id, the result is true
  exactly when every visible row of \<open>tasks\<close> whose id occurs in the dependencies of \<open>T\<close>
  is completed or done. With an empty dependency list the result is true in both.
\<close>

theorem canStartTask_resolved:
  "(find_task_project taskId (ls_projects s) = Some (T, P) \<longrightarrow>
      (canStartTask_demo taskId s \<longleftrightarrow>
         (\<forall>x\<in>set (or_else (p_tasks P) []).
             t_id x \<in> set (t_dependencies T) \<longrightarrow> t_status x = Completed \<or> t_status x = Done))
      \<and> (t_dependencies T = [] \<longrightarrow> canStartTask_demo taskId s))
   \<and> (find_task_project taskId (ls_projects s) = None \<longrightarrow> canStartTask_demo taskId s)
   \<and> (single (select_task d session taskId) = Inr T2 \<longrightarrow>
        canStartTask_managed session taskId d =
          Inr (\<forall>x\<in>set (tasks d).
                 t_id x \<in> set (t_dependencies T2) \<and> rls_using d session Select (TaskRow x)
                   \<longrightarrow> t_status x = Completed \<or> t_status x = Done)
        \<and> (t_dependencies T2 = [] \<longrightarrow> canStartTask_managed session taskId d = Inr True))"
proof (intro conjI impI)
  assume a: "find_task_project taskId (ls_projects s) = Some (T, P)"
  then show "canStartTask_demo taskId s \<longleftrightarrow>
         (\<forall>x\<in>set (or_else (p_tasks P) []).
             t_id x \<in> set (t_dependencies T) \<longrightarrow> t_status x = Completed \<or> t_status x = Done)"
    by (auto simp: canStartTask_demo_def getTaskDependencies_demo_def loadDemoProjects_def
          all_done_iff)
  assume "t_dependencies T = []"
  with a show "canStartTask_demo taskId s"
    by (simp add: canStartTask_demo_def getTaskDependencies_demo_def loadDemoProjects_def
          all_done_iff)
next
  assume "find_task_project taskId (ls_projects s) = None"
  then show "canStartTask_demo taskId s"
    by (simp add: canStartTask_demo_def getTaskDependencies_demo_def loadDemoProjects_def
          all_done_iff)
next
  assume b: "single (select_task d session taskId) = Inr T2"
  then show "canStartTask_managed session taskId d =
          Inr (\<forall>x\<in>set (tasks d).
                 t_id x \<in> set (t_dependencies T2) \<and> rls_using d session Select (TaskRow x)
                   \<longrightarrow> t_status x = Completed \<or> t_status x = Done)"
    by (auto simp: canStartTask_managed_def getTaskDependencies_managed_def all_done_iff)
  assume "t_dependencies T2 = []"
  with b show "canStartTask_managed session taskId d = Inr True"
    by (simp add: canStartTask_managed_def getTaskDependencies_managed_def all_done_iff)
qed

theorem canStartTask_resolved_witness:
  "\<not> canStartTask_demo ''t4'' (ex_store\<lparr>ls_projects :=
        [ex_project\<lparr>p_tasks := Some (ex_tasks @ [mk_task ''t4'' ''p1'' NotStarted 0 [''t1'', ''t2'']])\<rparr>]\<rparr>)
   \<and> canStartTask_demo ''t1'' ex_store
   \<and> canStartTask_demo ''nope'' ex_store
   \<and> canStartTask_managed (Some ''alice'') ''t1'' ex_db = Inr True"
proof -
  let ?T4 = "mk_task ''t4'' ''p1'' NotStarted 0 [''t1'', ''t2'']"
  let ?P = "ex_project\<lparr>p_tasks := Some (ex_tasks @ [?T4])\<rparr>"
  let ?s = "ex_store\<lparr>ls_projects := [?P]\<rparr>"
  let ?T1 = "mk_task ''t1'' ''p1'' OnHold 30 []"
  have h1: "find_task_project ''t4'' (ls_projects ?s) = Some (?T4, ?P)" by code_simp
  have h2: "find_task_project ''t1'' (ls_projects ex_store) = Some (?T1, ex_project)" by code_simp
  have h3: "find_task_project ''nope'' (ls_projects ex_store) = None" by code_simp
  have h4: "single (select_task ex_db (Some ''alice'') ''t1'') = Inr ?T1" by code_simp
  have e: "t_dependencies ?T1 = []" by (simp add: mk_task_def)
  have n: "\<not> (\<forall>x\<in>set (or_else (p_tasks ?P) []).
             t_id x \<in> set (t_dependencies ?T4) \<longrightarrow> t_status x = Completed \<or> t_status x = Done)"
    by (simp add: or_else_def ex_tasks_def mk_task_def)
  from canStartTask_resolved[where taskId = "''t4''" and s = ?s and T = ?T4 and P = ?P] h1 n
  have a: "\<not> canStartTask_demo ''t4'' ?s" by blast
  from canStartTask_resolved[where taskId = "''t1''" and s = ex_store and T = ?T1
      and P = ex_project and d = ex_db and session = "Some ''alice''" and ?T2.0 = ?T1] h2 h4 e
  have b: "canStartTask_demo ''t1'' ex_store"
    and c: "canStartTask_managed (Some ''alice'') ''t1'' ex_db = Inr True" by blast+
  from canStartTask_resolved[where taskId = "''nope''" and s = ex_store] h3
  have d: "canStartTask_demo ''nope'' ex_store" by blast
  from a b c d show ?thesis by blast
qed

text \<open>
  The third example task depends on \<open>t2\<close>, which is completed, and on \<open>ghost\<close>, which
  names no task: that identifier does not resolve to a completed task, and the task may
  start all the same, in both variants.
\<close>

theorem canStartTask_dangling_counterexample:
  "canStartTask_demo ''t3'' ex_store
   \<and> canStartTask_managed (Some ''alice'') ''t3'' ex_db = Inr True
   \<and> find_task_project ''t3'' (ls_projects ex_store)
       = Some (mk_task ''t3'' ''p1'' NotStarted 0 [''t2'', ''ghost''], ex_project)
   \<and> ''ghost'' \<in> set (t_dependencies (mk_task ''t3'' ''p1'' NotStarted 0 [''t2'', ''ghost'']))
   \<and> find (\<lambda>x. t_id x = ''ghost'') (getProjectTasks_demo ''p1'' ex_store) = None
   \<and> find (\<lambda>x. t_id x = ''ghost'') (tasks ex_db) = None"
  by code_simp

section \<open>Date ordering\<close>






lemma first_violation_None:
  "first_violation d session rows = None \<Longrightarrow> \<forall>t\<in>set rows. row_violation d session t = None"
  by (induction rows) (auto split: option.splits)


lemma updateTask_managed_valid:
  assumes "updateTask_managed log_id now session tid pid u d = Inr (t', d')"
  shows "row_violation d session t' = None"
proof -
  from assms obtain rows d1 where
    r: "update_task d session now tid u = Inr (rows, d1)" "rows = [t']"
    by (auto simp: updateTask_managed_def single_Inr split: sum.splits)
  then have "first_violation d session rows = None"
    by (auto simp: update_task_def Let_def split: option.splits)
  from first_violation_None[OF this] r(2) show ?thesis by simp
qed





section \<open>Bulk import\<close>

lemma findIndex_exists:
  "a \<in> f ` set xs \<Longrightarrow> \<exists>i. findIndex (\<lambda>p. f p = a) xs = Some i"
  by (induction xs) auto

lemma findIndex_absent:
  "a \<notin> f ` set xs \<Longrightarrow> findIndex (\<lambda>p. f p = a) xs = None"
  by (induction xs) auto

lemma toISOString_Inr:
  "x \<noteq> Some InvalidDate \<Longrightarrow> \<exists>t. toISOString now x = Inr t"
  by (auto simp: toISOString_def split: option.splits date_input.splits)

lemma toISOString_Inl:
  "toISOString now (Some InvalidDate) = Inl (RangeError ''Invalid time value'')"
  by (simp add: toISOString_def)

lemma createTask_demo_ok:
  assumes "ti_project_id ti = Some pid" "pid \<in> p_id ` set (ls_projects s)"
    and "toISOString now (ti_start_date ti) = Inr sd" "toISOString now (ti_end_date ti) = Inr ed"
  shows "\<exists>s1. createTask_demo nid now ti s = Inr (newTask nid now pid ti sd ed, s1)
           \<and> map p_id (ls_projects s1) = map p_id (ls_projects s)
           \<and> (\<forall>q. getProjectTasks_demo q s1
                  = getProjectTasks_demo q s
                      @ (if q = pid then [newTask nid now pid ti sd ed] else []))"
proof -
  from findIndex_exists[OF assms(2)] obtain i where
    i: "findIndex (\<lambda>p. p_id p = pid) (ls_projects s) = Some i" by blast
  let ?p = "ls_projects s ! i"
  let ?nt = "newTask nid now pid ti sd ed"
  let ?p' = "?p\<lparr>p_tasks := Some (or_else (p_tasks ?p) [] @ [?nt]), p_lastModified := Some now\<rparr>"
  let ?s1 = "s\<lparr>ls_projects := (ls_projects s)[i := ?p']\<rparr>"
  from findIndex_Some[OF i] have il: "i < length (ls_projects s)" and ip: "p_id ?p = pid"
    and fp: "find (\<lambda>p. p_id p = pid) (ls_projects s) = Some ?p" by simp_all
  have c: "createTask_demo nid now ti s = Inr (?nt, ?s1)"
    using assms(1,3,4) i
    by (simp add: createTask_demo_def loadDemoProjects_def saveDemoProjects_def Let_def)
  have ids: "map p_id (ls_projects ?s1) = map p_id (ls_projects s)"
    using il ip by (simp add: map_update list_update_same_conv)
  have "\<And>q. getProjectTasks_demo q ?s1
                  = getProjectTasks_demo q s @ (if q = pid then [?nt] else [])"
  proof -
    fix q
    have "p_id ?p' = pid" using ip by simp
    from find_update_first[OF i this, of q]
    have "find (\<lambda>p. p_id p = q) (ls_projects ?s1)
            = (if q = pid then Some ?p' else find (\<lambda>p. p_id p = q) (ls_projects s))"
      by simp
    then show "getProjectTasks_demo q ?s1
                  = getProjectTasks_demo q s @ (if q = pid then [?nt] else [])"
      using fp by (auto simp: getProjectTasks_demo_def loadDemoProjects_def or_else_def
                        split: option.splits)
  qed
  with c ids show ?thesis by blast
qed

lemma createTask_demo_fails:
  assumes "ti_project_id ti = Some pid"
    and "pid \<notin> p_id ` set (ls_projects s) \<or> ti_start_date ti = Some InvalidDate
           \<or> ti_end_date ti = Some InvalidDate"
  shows "\<exists>e. createTask_demo nid now ti s = Inl e"
proof (cases "findIndex (\<lambda>p. p_id p = pid) (ls_projects s)")
  case None
  with assms(1) show ?thesis by (simp add: createTask_demo_def loadDemoProjects_def)
next
  case (Some i)
  then have "pid \<in> p_id ` set (ls_projects s)"
    using findIndex_absent[of pid p_id "ls_projects s"] by force
  with assms(2) have d: "ti_start_date ti = Some InvalidDate \<or> ti_end_date ti = Some InvalidDate"
    by simp
  show ?thesis
  proof (cases "toISOString now (ti_start_date ti)")
    case (Inl e)
    with Some assms(1) show ?thesis by (simp add: createTask_demo_def loadDemoProjects_def)
  next
    case (Inr sd)
    then have "ti_start_date ti \<noteq> Some InvalidDate" by (auto simp: toISOString_Inl)
    with d have "toISOString now (ti_end_date ti) = Inl (RangeError ''Invalid time value'')"
      by (simp add: toISOString_Inl)
    with Inr Some assms(1) show ?thesis
      by (simp add: createTask_demo_def loadDemoProjects_def)
  qed
qed

text \<open>The specifications that the local import turns into tasks.\<close>

lemma importTasks_loop_spec:
  assumes "importTasks_loop gen now tis acc s = (results, s')"
  shows "\<exists>new.
      results = acc @ new
      \<and> map p_id (ls_projects s') = map p_id (ls_projects s)
      \<and> length new = length (filter (\<lambda>ti. (case ti_project_id ti of None \<Rightarrow> False
                 | Some pid \<Rightarrow> pid \<noteq> [] \<and> pid \<in> p_id ` set (ls_projects s))
                 \<and> ti_start_date ti \<noteq> Some InvalidDate \<and> ti_end_date ti \<noteq> Some InvalidDate) tis)
      \<and> (\<forall>k < length new. \<exists>pid sd ed.
            ti_project_id (filter (\<lambda>ti. (case ti_project_id ti of None \<Rightarrow> False
                 | Some pid \<Rightarrow> pid \<noteq> [] \<and> pid \<in> p_id ` set (ls_projects s))
                 \<and> ti_start_date ti \<noteq> Some InvalidDate \<and> ti_end_date ti \<noteq> Some InvalidDate) tis ! k) = Some pid
            \<and> toISOString now (ti_start_date (filter (\<lambda>ti. (case ti_project_id ti of None \<Rightarrow> False
                 | Some pid \<Rightarrow> pid \<noteq> [] \<and> pid \<in> p_id ` set (ls_projects s))
                 \<and> ti_start_date ti \<noteq> Some InvalidDate \<and> ti_end_date ti \<noteq> Some InvalidDate) tis ! k)) = Inr sd
            \<and> toISOString now (ti_end_date (filter (\<lambda>ti. (case ti_project_id ti of None \<Rightarrow> False
                 | Some pid \<Rightarrow> pid \<noteq> [] \<and> pid \<in> p_id ` set (ls_projects s))
                 \<and> ti_start_date ti \<noteq> Some InvalidDate \<and> ti_end_date ti \<noteq> Some InvalidDate) tis ! k)) = Inr ed
            \<and> new ! k = newTask (gen (length acc + k)) now pid (filter (\<lambda>ti. (case ti_project_id ti of None \<Rightarrow> False
                 | Some pid \<Rightarrow> pid \<noteq> [] \<and> pid \<in> p_id ` set (ls_projects s))
                 \<and> ti_start_date ti \<noteq> Some InvalidDate \<and> ti_end_date ti \<noteq> Some InvalidDate) tis ! k) sd ed)
      \<and> (\<forall>q. getProjectTasks_demo q s'
             = getProjectTasks_demo q s @ filter (\<lambda>t. t_project_id t = q) new)"
  using assms
proof (induction tis arbitrary: acc s)
  case Nil
  then show ?case by simp
next
  case (Cons ti rest)
  let ?ok = "\<lambda>s ti. (case ti_project_id ti of None \<Rightarrow> False
                 | Some pid \<Rightarrow> pid \<noteq> [] \<and> pid \<in> p_id ` set (ls_projects s))
                 \<and> ti_start_date ti \<noteq> Some InvalidDate \<and> ti_end_date ti \<noteq> Some InvalidDate"
  show ?case
  proof (cases "?ok s ti")
    case False
    have "importTasks_loop gen now (ti # rest) acc s = importTasks_loop gen now rest acc s"
    proof (cases "ti_project_id ti")
      case None
      then show ?thesis by (simp add: or_null_def)
    next
      case (Some pid)
      show ?thesis
      proof (cases "pid = []")
        case True
        with Some show ?thesis by (simp add: or_null_def)
      next
        case nonempty: False
        with Some False have "pid \<notin> p_id ` set (ls_projects s)
           \<or> ti_start_date ti = Some InvalidDate \<or> ti_end_date ti = Some InvalidDate"
          by auto
        from createTask_demo_fails[OF Some this, of "gen (length acc)" now] Some nonempty
        show ?thesis by (auto simp: or_null_def)
      qed
    qed
    with Cons.prems have r: "importTasks_loop gen now rest acc s = (results, s')" by simp
    have flt: "filter (?ok s) (ti # rest) = filter (?ok s) rest" using False by simp
    show ?thesis unfolding flt by (rule Cons.IH[OF r])
  next
    case True
    then obtain pid where pid: "ti_project_id ti = Some pid" "pid \<noteq> []"
      "pid \<in> p_id ` set (ls_projects s)"
      by (auto split: option.splits)
    from True obtain sd ed where
      sd: "toISOString now (ti_start_date ti) = Inr sd"
      and ed: "toISOString now (ti_end_date ti) = Inr ed"
      using toISOString_Inr[of "ti_start_date ti" now] toISOString_Inr[of "ti_end_date ti" now]
      by blast
    let ?nt = "newTask (gen (length acc)) now pid ti sd ed"
    from createTask_demo_ok[OF pid(1,3) sd ed, of "gen (length acc)"] obtain s1 where
      s1: "createTask_demo (gen (length acc)) now ti s = Inr (?nt, s1)"
          "map p_id (ls_projects s1) = map p_id (ls_projects s)"
          "\<forall>q. getProjectTasks_demo q s1
                  = getProjectTasks_demo q s @ (if q = pid then [?nt] else [])"
      by blast
    from s1(2) have same: "p_id ` set (ls_projects s1) = p_id ` set (ls_projects s)"
      by (metis set_map)
    from Cons.prems s1(1) pid
    have "importTasks_loop gen now rest (acc @ [?nt]) s1 = (results, s')"
      by (simp add: or_null_def)
    from Cons.IH[OF this, unfolded same] obtain new where
      new: "results = (acc @ [?nt]) @ new"
        "map p_id (ls_projects s') = map p_id (ls_projects s1)"
        "length new = length (filter (?ok s) rest)"
        "\<forall>k < length new. \<exists>pid sd ed.
            ti_project_id (filter (?ok s) rest ! k) = Some pid
            \<and> toISOString now (ti_start_date (filter (?ok s) rest ! k)) = Inr sd
            \<and> toISOString now (ti_end_date (filter (?ok s) rest ! k)) = Inr ed
            \<and> new ! k = newTask (gen (length (acc @ [?nt]) + k)) now pid
                 (filter (?ok s) rest ! k) sd ed"
        "\<forall>q. getProjectTasks_demo q s'
             = getProjectTasks_demo q s1 @ filter (\<lambda>t. t_project_id t = q) new"
      by blast
    have f: "filter (?ok s) (ti # rest) = ti # filter (?ok s) rest" using True by simp
    have ntp: "t_project_id ?nt = pid" by (simp add: newTask_def)
    show ?thesis
    proof (intro exI[of _ "?nt # new"] conjI allI impI)
      show "results = acc @ ?nt # new" using new(1) by simp
      show "map p_id (ls_projects s') = map p_id (ls_projects s)" using new(2) s1(2) by simp
      show "length (?nt # new) = length (filter (?ok s) (ti # rest))"
        using new(3) f by simp
      show "getProjectTasks_demo q s'
             = getProjectTasks_demo q s @ filter (\<lambda>t. t_project_id t = q) (?nt # new)" for q
        using new(5) s1(3) ntp by auto
      show "\<exists>pid sd ed. ti_project_id (filter (?ok s) (ti # rest) ! k) = Some pid
            \<and> toISOString now (ti_start_date (filter (?ok s) (ti # rest) ! k)) = Inr sd
            \<and> toISOString now (ti_end_date (filter (?ok s) (ti # rest) ! k)) = Inr ed
            \<and> (?nt # new) ! k = newTask (gen (length acc + k)) now pid
                 (filter (?ok s) (ti # rest) ! k) sd ed" if k: "k < length (?nt # new)" for k
      proof (cases k)
        case 0
        with pid(1) sd ed f show ?thesis by simp
      next
        case (Suc j)
        with k have "j < length new" by simp
        with new(4) obtain pj sj ej where
          "ti_project_id (filter (?ok s) rest ! j) = Some pj"
          "toISOString now (ti_start_date (filter (?ok s) rest ! j)) = Inr sj"
          "toISOString now (ti_end_date (filter (?ok s) rest ! j)) = Inr ej"
          "new ! j = newTask (gen (length (acc @ [?nt]) + j)) now pj
                       (filter (?ok s) rest ! j) sj ej"
          by blast
        with Suc f show ?thesis by simp
      qed
    qed
  qed
qed

lemma insert_task_rows_Inr:
  "insert_task_rows d session now gen k tds = Inr ts \<Longrightarrow>
     length ts = length tds
     \<and> (\<forall>i < length tds. insert_task_row d session now (gen (k + i)) (tds ! i) = Inr (ts ! i))"
proof (induction tds arbitrary: k ts)
  case Nil
  then show ?case by simp
next
  case (Cons td rest)
  from Cons.prems obtain t ts' where
    t: "insert_task_row d session now (gen k) td = Inr t"
       "insert_task_rows d session now gen (Suc k) rest = Inr ts'" "ts = t # ts'"
    by (auto split: sum.splits)
  from Cons.IH[OF t(2)] have ih: "length ts' = length rest"
    "\<forall>i < length rest. insert_task_row d session now (gen (Suc k + i)) (rest ! i) = Inr (ts' ! i)"
    by simp_all
  show ?case
  proof (intro conjI allI impI)
    show "length ts = length (td # rest)" using ih(1) t(3) by simp
    fix i assume "i < length (td # rest)"
    then show "insert_task_row d session now (gen (k + i)) ((td # rest) ! i) = Inr (ts ! i)"
      using t(1,3) ih(2) by (cases i) auto
  qed
qed

lemma insert_task_rows_Inl:
  "i < length tds \<Longrightarrow> insert_task_row d session now (gen (k + i)) (tds ! i) = Inl e \<Longrightarrow>
     \<exists>e'. insert_task_rows d session now gen k tds = Inl e'"
proof (induction tds arbitrary: k i)
  case Nil
  then show ?case by simp
next
  case (Cons td rest)
  show ?case
  proof (cases i)
    case 0
    with Cons.prems show ?thesis by simp
  next
    case (Suc j)
    with Cons.prems have "j < length rest"
      "insert_task_row d session now (gen (Suc k + j)) (rest ! j) = Inl e" by simp_all
    from Cons.IH[OF this] show ?thesis by (auto split: sum.splits)
  qed
qed

text \<open>
  Claim C6. Local variant: \<open>importTasks\<close> always returns; it creates one task for each
  specification that \<open>createTask\<close> accepts (its \<open>project_id\<close> is a non-empty identifier of
  a stored project and its dates, if given, parse), in order, skips the others (the
  failure of one is caught and does not stop the next), returns exactly the tasks
  created, and each project's task list afterwards is its list before followed by the
  returned tasks of that project. Managed variant: if any one row of the batch is
  refused, \<open>importTasks\<close> throws and stores nothing (the result carries no new database);
  if it returns, it returns one row for every specification and the table \<open>tasks\<close> is
  the old one followed by these rows.
\<close>

theorem importTasks_policies:
  "(importTasks_demo gen now tis s = (results, s') \<longrightarrow>
      length results = length (filter (\<lambda>ti. (case ti_project_id ti of None \<Rightarrow> False
                 | Some pid \<Rightarrow> pid \<noteq> [] \<and> pid \<in> p_id ` set (ls_projects s))
                 \<and> ti_start_date ti \<noteq> Some InvalidDate \<and> ti_end_date ti \<noteq> Some InvalidDate) tis)
      \<and> (\<forall>k < length results. \<exists>pid sd ed.
            ti_project_id (filter (\<lambda>ti. (case ti_project_id ti of None \<Rightarrow> False
                 | Some pid \<Rightarrow> pid \<noteq> [] \<and> pid \<in> p_id ` set (ls_projects s))
                 \<and> ti_start_date ti \<noteq> Some InvalidDate \<and> ti_end_date ti \<noteq> Some InvalidDate) tis ! k) = Some pid
            \<and> toISOString now (ti_start_date (filter (\<lambda>ti. (case ti_project_id ti of None \<Rightarrow> False
                 | Some pid \<Rightarrow> pid \<noteq> [] \<and> pid \<in> p_id ` set (ls_projects s))
                 \<and> ti_start_date ti \<noteq> Some InvalidDate \<and> ti_end_date ti \<noteq> Some InvalidDate) tis ! k)) = Inr sd
            \<and> toISOString now (ti_end_date (filter (\<lambda>ti. (case ti_project_id ti of None \<Rightarrow> False
                 | Some pid \<Rightarrow> pid \<noteq> [] \<and> pid \<in> p_id ` set (ls_projects s))
                 \<and> ti_start_date ti \<noteq> Some InvalidDate \<and> ti_end_date ti \<noteq> Some InvalidDate) tis ! k)) = Inr ed
            \<and> results ! k = newTask (gen k) now pid (filter (\<lambda>ti. (case ti_project_id ti of None \<Rightarrow> False
                 | Some pid \<Rightarrow> pid \<noteq> [] \<and> pid \<in> p_id ` set (ls_projects s))
                 \<and> ti_start_date ti \<noteq> Some InvalidDate \<and> ti_end_date ti \<noteq> Some InvalidDate) tis ! k) sd ed)
      \<and> (\<forall>q. getProjectTasks_demo q s'
             = getProjectTasks_demo q s @ filter (\<lambda>t. t_project_id t = q) results))
   \<and> (i < length tis
        \<and> insert_task_row d session now (gen2 i) (preparedTask now (tis ! i)) = Inl e \<longrightarrow>
        (\<exists>e'. importTasks_managed gen2 log_id now session tis d = Inl e'))
   \<and> (importTasks_managed gen2 log_id now session tis d = Inr (rows, d') \<longrightarrow>
        length rows = length tis \<and> tasks d' = tasks d @ rows
        \<and> (\<forall>i < length tis.
              insert_task_row d session now (gen2 i) (preparedTask now (tis ! i)) = Inr (rows ! i)))"
proof (intro conjI impI)
  assume a: "importTasks_demo gen now tis s = (results, s')"
  then have "importTasks_loop gen now tis [] s = (results, s')"
    by (simp add: importTasks_demo_def)
  from importTasks_loop_spec[OF this]
  show "length results = length (filter (\<lambda>ti. (case ti_project_id ti of None \<Rightarrow> False
                 | Some pid \<Rightarrow> pid \<noteq> [] \<and> pid \<in> p_id ` set (ls_projects s))
                 \<and> ti_start_date ti \<noteq> Some InvalidDate \<and> ti_end_date ti \<noteq> Some InvalidDate) tis)"
    and "\<forall>k < length results. \<exists>pid sd ed.
            ti_project_id (filter (\<lambda>ti. (case ti_project_id ti of None \<Rightarrow> False
                 | Some pid \<Rightarrow> pid \<noteq> [] \<and> pid \<in> p_id ` set (ls_projects s))
                 \<and> ti_start_date ti \<noteq> Some InvalidDate \<and> ti_end_date ti \<noteq> Some InvalidDate) tis ! k) = Some pid
            \<and> toISOString now (ti_start_date (filter (\<lambda>ti. (case ti_project_id ti of None \<Rightarrow> False
                 | Some pid \<Rightarrow> pid \<noteq> [] \<and> pid \<in> p_id ` set (ls_projects s))
                 \<and> ti_start_date ti \<noteq> Some InvalidDate \<and> ti_end_date ti \<noteq> Some InvalidDate) tis ! k)) = Inr sd
            \<and> toISOString now (ti_end_date (filter (\<lambda>ti. (case ti_project_id ti of None \<Rightarrow> False
                 | Some pid \<Rightarrow> pid \<noteq> [] \<and> pid \<in> p_id ` set (ls_projects s))
                 \<and> ti_start_date ti \<noteq> Some InvalidDate \<and> ti_end_date ti \<noteq> Some InvalidDate) tis ! k)) = Inr ed
            \<and> results ! k = newTask (gen k) now pid (filter (\<lambda>ti. (case ti_project_id ti of None \<Rightarrow> False
                 | Some pid \<Rightarrow> pid \<noteq> [] \<and> pid \<in> p_id ` set (ls_projects s))
                 \<and> ti_start_date ti \<noteq> Some InvalidDate \<and> ti_end_date ti \<noteq> Some InvalidDate) tis ! k) sd ed"
    and "\<forall>q. getProjectTasks_demo q s'
             = getProjectTasks_demo q s @ filter (\<lambda>t. t_project_id t = q) results"
    by auto
next
  assume "i < length tis
        \<and> insert_task_row d session now (gen2 i) (preparedTask now (tis ! i)) = Inl e"
  then have "i < length (map (preparedTask now) tis)"
    "insert_task_row d session now (gen2 (0 + i)) (map (preparedTask now) tis ! i) = Inl e"
    by simp_all
  from insert_task_rows_Inl[of i "map (preparedTask now) tis" d session now gen2 0 e, OF this]
  show "\<exists>e'. importTasks_managed gen2 log_id now session tis d = Inl e'"
    by (auto simp: importTasks_managed_def insert_tasks_def)
next
  assume b: "importTasks_managed gen2 log_id now session tis d = Inr (rows, d')"
  then have r: "insert_task_rows d session now gen2 0 (map (preparedTask now) tis) = Inr rows"
    and t: "tasks d' = tasks d @ rows"
    by (auto simp: importTasks_managed_def insert_tasks_def split: sum.splits list.splits)
  from insert_task_rows_Inr[OF r] show "length rows = length tis"
    and "\<forall>i < length tis.
              insert_task_row d session now (gen2 i) (preparedTask now (tis ! i)) = Inr (rows ! i)"
    by simp_all
  from t show "tasks d' = tasks d @ rows" .
qed

theorem importTasks_policies_witness:
  "(\<exists>results s'. importTasks_demo ex_gen 7 ex_specs ex_store = (results, s')
       \<and> length results = 4
       \<and> length (getProjectTasks_demo ''p1'' s') = 7)
   \<and> (\<exists>e'. importTasks_managed ex_gen ''l9'' 7 (Some ''alice'') ex_specs ex_db = Inl e')
   \<and> (\<exists>rows d'. importTasks_managed ex_gen ''l9'' 7 (Some ''alice'') (take 2 ex_specs) ex_db
                   = Inr (rows, d')
         \<and> length rows = 2 \<and> tasks d' = ex_tasks @ rows)"
proof -
  obtain results s' where
    a: "importTasks_demo ex_gen 7 ex_specs ex_store = (results, s')"
    by (cases "importTasks_demo ex_gen 7 ex_specs ex_store") blast
  have n: "length (filter (\<lambda>ti. (case ti_project_id ti of None \<Rightarrow> False
                 | Some pid \<Rightarrow> pid \<noteq> [] \<and> pid \<in> p_id ` set (ls_projects ex_store))
                 \<and> ti_start_date ti \<noteq> Some InvalidDate \<and> ti_end_date ti \<noteq> Some InvalidDate)
              ex_specs) = 4"
    by (simp add: ex_specs_def mk_insert_def ex_store_def ex_project_def)
  have b: "2 < length ex_specs
        \<and> insert_task_row ex_db (Some ''alice'') 7 (ex_gen 2) (preparedTask 7 (ex_specs ! 2))
            = Inl (Postgrest InvalidDatetimeFormat)"
    by code_simp
  have "\<not> isl (importTasks_managed ex_gen ''l9'' 7 (Some ''alice'') (take 2 ex_specs) ex_db)"
    by code_simp
  then obtain rows d' where
    c: "importTasks_managed ex_gen ''l9'' 7 (Some ''alice'') (take 2 ex_specs) ex_db
          = Inr (rows, d')"
    using sum_not_isl by fastforce
  have l: "length (take 2 ex_specs) = 2" by (simp add: ex_specs_def)
  have t: "tasks ex_db = ex_tasks" by (simp add: ex_db_def)
  have "length (getProjectTasks_demo ''p1'' (snd (importTasks_demo ex_gen 7 ex_specs ex_store))) = 7"
    by code_simp
  then have g: "length (getProjectTasks_demo ''p1'' s') = 7" using a by simp
  from importTasks_policies[where gen = ex_gen and now = 7 and tis = ex_specs and s = ex_store
      and results = results and s' = s' and i = 2 and d = ex_db and session = "Some ''alice''"
      and ?gen2.0 = ex_gen and e = "Postgrest InvalidDatetimeFormat" and log_id = "''l9''"] a b n
  have 1: "length results = 4"
    and 2: "\<exists>e'. importTasks_managed ex_gen ''l9'' 7 (Some ''alice'') ex_specs ex_db = Inl e'"
    by simp_all
  from importTasks_policies[where tis = "take 2 ex_specs" and d = ex_db and log_id = "''l9''"
      and session = "Some ''alice''" and ?gen2.0 = ex_gen and now = 7 and rows = rows
      and d' = d'] c l t
  have 3: "length rows = 2 \<and> tasks d' = ex_tasks @ rows" by simp
  from a 1 2 3 c g show ?thesis by blast
qed

section \<open>The activity log\<close>

lemma logActivity_demo_log:
  "demoActivityLog (logActivity_demo log_id now pid u action chg tid s)
     = logEntry log_id now pid u action chg tid # demoActivityLog s
   \<and> ls_log (logActivity_demo log_id now pid u action chg tid s)
     = logEntry log_id now pid u action chg tid # demoActivityLog s"
  by (simp add: logActivity_demo_def Let_def)

lemma can_access_project_exists:
  "can_access_project d u pid \<Longrightarrow> list_ex (\<lambda>r. pr_id r = pid) (projects d)"
  by (auto simp: can_access_project_def list_ex_iff)

lemma insert_activity_ok:
  assumes "can_access_project d u pid" "u \<in> set (auth_users d)"
    and "case or_null tid of None \<Rightarrow> True | Some i \<Rightarrow> list_ex (\<lambda>t. t_id t = i) (tasks d)"
  shows "insert_activity d (Some u) (logEntry log_id now pid u action chg tid)
           = Inr (d\<lparr>activity_log := activity_log d @ [logEntry log_id now pid u action chg tid]\<rparr>)"
  using assms can_access_project_exists[OF assms(1)]
  by (auto simp: insert_activity_def logEntry_def rls_with_check_def split: option.splits)

lemma insert_task_row_access:
  assumes "insert_task_row d session now new_id td = Inr t"
  shows "\<exists>u. session = Some u \<and> can_access_project d u (t_project_id t) \<and> t_id t = new_id"
  using assms
  by (auto simp: insert_task_row_def rls_with_check_def Let_def
           split: option.splits if_splits date_input.splits)

lemma createTask_managed_log:
  assumes "createTask_managed new_id log_id now (Some u) ti d = Inr (t, d')"
    and "u \<in> set (auth_users d)"
  shows "activity_log d' = activity_log d
           @ [logEntry log_id now (t_project_id t) u ''task_created''
                (Some (TaskName (t_name t))) (Some (t_id t))]"
proof -
  let ?d1 = "d\<lparr>tasks := tasks d @ [t]\<rparr>"
  let ?e = "logEntry log_id now (t_project_id t) u ''task_created''
                (Some (TaskName (t_name t))) (Some (t_id t))"
  from assms(1) have row: "insert_task_row d (Some u) now new_id (taskData now ti) = Inr t"
    and d': "d' = logActivity_task_managed (Some u) now log_id (t_project_id t) ''task_created''
                (Some (TaskName (t_name t))) (Some (t_id t)) ?d1"
    by (auto simp: createTask_managed_def insert_tasks_def single_Inr split: sum.splits)
  from insert_task_row_access[OF row] have "can_access_project d u (t_project_id t)" by simp
  then have 1: "can_access_project ?d1 u (t_project_id t)"
    by (simp add: can_access_project_def)
  have 2: "u \<in> set (auth_users ?d1)" using assms(2) by simp
  have 3: "case or_null (Some (t_id t)) of None \<Rightarrow> True
           | Some i \<Rightarrow> list_ex (\<lambda>x. t_id x = i) (tasks ?d1)"
    by (simp add: or_null_def)
  from insert_activity_ok[OF 1 2 3] show ?thesis
    unfolding d' by (simp add: logActivity_task_managed_def)
qed

lemma updated_row_id [simp]: "t_id (updated_row now u t) = t_id t"
  by (simp add: updated_row_def merge_updates_def Let_def)

lemma updateTask_managed_log:
  assumes "updateTask_managed log_id now (Some u) tid pid upd d = Inr (t, d')"
    and "u \<in> set (auth_users d)"
  shows "activity_log d' = activity_log d
           @ [logEntry log_id now (t_project_id t) u ''task_updated''
                (Some (TaskUpdates upd)) (Some tid)]"
proof -
  let ?d1 = "d\<lparr>tasks := map (\<lambda>x. if update_target d (Some u) tid x
                                   then updated_row now upd x else x) (tasks d)\<rparr>"
  from assms(1) obtain T0 where
    T0: "filter (update_target d (Some u) tid) (tasks d) = [T0]" "t = updated_row now upd T0"
    and d': "d' = logActivity_task_managed (Some u) now log_id (t_project_id t) ''task_updated''
                (Some (TaskUpdates upd)) (Some tid) ?d1"
    by (auto simp: updateTask_managed_def update_task_def Let_def single_Inr
             split: option.splits sum.splits)
  from T0(1) have "T0 \<in> set (filter (update_target d (Some u) tid) (tasks d))" by simp
  then have T0in: "T0 \<in> set (tasks d)" and tgt: "update_target d (Some u) tid T0" by simp_all
  from tgt have tid: "t_id T0 = tid" by (simp add: update_target_def)
  from updateTask_managed_valid[OF assms(1)]
  have "can_access_project d u (t_project_id t)"
    by (auto simp: row_violation_def rls_with_check_def split: if_splits)
  then have 1: "can_access_project ?d1 u (t_project_id t)"
    by (simp add: can_access_project_def)
  have 2: "u \<in> set (auth_users ?d1)" using assms(2) by simp
  have "t \<in> set (tasks ?d1)" using T0in tgt T0(2) by force
  moreover have "t_id t = tid" using T0(2) tid by simp
  ultimately have 3: "case or_null (Some tid) of None \<Rightarrow> True
           | Some i \<Rightarrow> list_ex (\<lambda>x. t_id x = i) (tasks ?d1)"
    by (auto simp: or_null_def list_ex_iff)
  from insert_activity_ok[OF 1 2 3] show ?thesis
    unfolding d' by (simp add: logActivity_task_managed_def)
qed

lemma createProject_managed_log:
  assumes "createProject_managed new_id log_id now (Some u) pr d = Inr (r, d')"
  shows "activity_log d' = activity_log d
           @ [logEntry log_id now (pr_id r) u ''project_created''
                (Some (ProjectName (pr_name r))) None]"
proof -
  let ?d1 = "d\<lparr>projects := projects d @ [r]\<rparr>"
  from assms have ins: "insert_project d (Some u) now new_id pr (Some u) = Inr (r, ?d1)"
    and d': "d' = logActivity_managed (Some u) now log_id (pr_id r) u ''project_created''
                (Some (ProjectName (pr_name r))) None ?d1"
    by (auto simp: createProject_managed_def insert_project_def Let_def
             split: sum.splits if_splits)
  from ins have own: "pr_created_by r = Some u" and usr: "u \<in> set (auth_users d)"
    by (auto simp: insert_project_def Let_def split: if_splits)
  from own have 1: "can_access_project ?d1 u (pr_id r)"
    by (auto simp: can_access_project_def row_access_def list_ex_iff)
  have 2: "u \<in> set (auth_users ?d1)" using usr by simp
  have 3: "case or_null None of None \<Rightarrow> True
           | Some i \<Rightarrow> list_ex (\<lambda>x. t_id x = i) (tasks ?d1)"
    by (simp add: or_null_def)
  from insert_activity_ok[OF 1 2 3] show ?thesis
    unfolding d' by (simp add: logActivity_managed_def)
qed

lemma updateProject_managed_log:
  assumes "updateProject_managed log_id now (Some u) pid upd d = Inr (r, d')"
    and "u \<in> set (auth_users d)"
  shows "activity_log d' = activity_log d
           @ [logEntry log_id now pid u ''project_updated''
                (Some (ProjectUpdates (upd\<lparr>pu_last_modified := Some now\<rparr>))) None]"
proof -
  let ?fu = "upd\<lparr>pu_last_modified := Some now\<rparr>"
  let ?d1 = "d\<lparr>projects := map (\<lambda>x. if project_target d (Some u) pid x
                                   then merge_project_row now ?fu x else x) (projects d)\<rparr>"
  from assms(1) obtain R0 where
    R0: "filter (project_target d (Some u) pid) (projects d) = [R0]"
        "r = merge_project_row now ?fu R0"
    and chk: "rls_with_check d (Some u) Update (ProjectRow r)"
    and d': "d' = logActivity_managed (Some u) now log_id pid u ''project_updated''
                (Some (ProjectUpdates ?fu)) None ?d1"
    by (auto simp: updateProject_managed_def update_project_def Let_def single_Inr
             split: sum.splits if_splits)
  from R0(1) have "R0 \<in> set (filter (project_target d (Some u) pid) (projects d))" by simp
  then have R0in: "R0 \<in> set (projects d)" and tgt: "project_target d (Some u) pid R0"
    by simp_all
  have rid: "pr_id r = pid"
    using tgt R0(2) by (simp add: project_target_def merge_project_row_def Let_def)
  have "r \<in> set (projects ?d1)" using R0in tgt R0(2) by force
  moreover from chk have "row_access u r" by (simp add: rls_with_check_def)
  ultimately have 1: "can_access_project ?d1 u pid"
    using rid by (auto simp: can_access_project_def list_ex_iff)
  have 2: "u \<in> set (auth_users ?d1)" using assms(2) by simp
  have 3: "case or_null None of None \<Rightarrow> True
           | Some i \<Rightarrow> list_ex (\<lambda>x. t_id x = i) (tasks ?d1)"
    by (simp add: or_null_def)
  from insert_activity_ok[OF 1 2 3] show ?thesis
    unfolding d' by (simp add: logActivity_managed_def)
qed

lemma deleteProject_demo_log:
  assumes "pid \<in> p_id ` set (demoProjects s)"
  shows "\<exists>s'. deleteProject_demo log_id now pid s = Inr s'
           \<and> demoActivityLog s' = logEntry log_id now pid ''demo_user'' ''project_deleted''
                                     (Some (ProjectId pid)) None # demoActivityLog s
           \<and> ls_log s' = demoActivityLog s'"
proof -
  from assms obtain p where "p \<in> set (demoProjects s)" "\<not> p_id p \<noteq> pid" by auto
  then have "length (filter (\<lambda>p. p_id p \<noteq> pid) (demoProjects s)) < length (demoProjects s)"
    by (rule length_filter_less)
  then have "deleteProject_demo log_id now pid s =
      Inr (logActivity_demo log_id now pid ''demo_user'' ''project_deleted''
             (Some (ProjectId pid)) None
             (saveProjects (s\<lparr>demoProjects := filter (\<lambda>p. p_id p \<noteq> pid) (demoProjects s)\<rparr>)))"
    by (simp add: deleteProject_demo_def Let_def)
  then show ?thesis
    by (simp add: logActivity_demo_log saveProjects_def)
qed

lemma createTask_demo_keeps_log:
  "createTask_demo new_id now ti s = Inr (t4, s4) \<Longrightarrow>
     ls_log s4 = ls_log s \<and> demoActivityLog s4 = demoActivityLog s"
  by (auto simp: createTask_demo_def saveDemoProjects_def Let_def
           split: option.splits sum.splits)

lemma updateTask_demo_keeps_log:
  "updateTask_demo now tid pid tupd s = Inr (t5, s5) \<Longrightarrow>
     ls_log s5 = ls_log s \<and> demoActivityLog s5 = demoActivityLog s"
  by (auto simp: updateTask_demo_def saveDemoProjects_def Let_def split: option.splits)

lemma deleteTask_demo_keeps_log:
  "deleteTask_demo tid pid s = Inr s6 \<Longrightarrow>
     ls_log s6 = ls_log s \<and> demoActivityLog s6 = demoActivityLog s"
  by (auto simp: deleteTask_demo_def saveDemoProjects_def Let_def
           split: option.splits if_splits)

lemma demo_task_ops_keep_log:
  "(createTask_demo new_id now ti s = Inr (t4, s4) \<longrightarrow>
       ls_log s4 = ls_log s \<and> demoActivityLog s4 = demoActivityLog s)
   \<and> (updateTask_demo now tid pid tupd s = Inr (t5, s5) \<longrightarrow>
       ls_log s5 = ls_log s \<and> demoActivityLog s5 = demoActivityLog s)
   \<and> (deleteTask_demo tid pid s = Inr s6 \<longrightarrow>
       ls_log s6 = ls_log s \<and> demoActivityLog s6 = demoActivityLog s)"
  using createTask_demo_keeps_log[of new_id now ti s t4 s4]
    updateTask_demo_keeps_log[of now tid pid tupd s t5 s5]
    deleteTask_demo_keeps_log[of tid pid s s6]
  by blast

text \<open>
  Claim C7, as the code has it. Local variant: a successful create or update of a
  project, and a delete of a project that is in the store, puts exactly one entry
  (action tag, the principal \<open>demo_user\<close>, payload) at the head of the activity log and
  saves the log; a delete of an identifier that names no stored project changes nothing
  and writes no entry; a create, update or delete of a task leaves the log as it is,
  because \<open>TaskService.logActivity\<close> does nothing when the managed backend is not
  configured. Managed variant: a successful create or update of a project or of a task
  by a signed-in user (a row of \<open>auth.users\<close>) appends exactly one row with the action
  tag, that user and the payload.
\<close>

theorem activity_log_entries:
  "(createProject_demo new_id log_id now pr s = (p1, s1) \<longrightarrow>
       demoActivityLog s1 = logEntry log_id now new_id ''demo_user'' ''project_created''
                              (Some (ProjectName (pi_name pr))) None # demoActivityLog s
       \<and> ls_log s1 = demoActivityLog s1)
   \<and> (updateProject_demo log_id now pid upd s = Inr (p2, s2) \<longrightarrow>
       demoActivityLog s2 = logEntry log_id now pid ''demo_user'' ''project_updated''
                              (Some (ProjectUpdates (upd\<lparr>pu_last_modified := Some now\<rparr>))) None
                            # demoActivityLog s
       \<and> ls_log s2 = demoActivityLog s2)
   \<and> (pid \<in> p_id ` set (demoProjects s) \<longrightarrow>
       (\<exists>s3. deleteProject_demo log_id now pid s = Inr s3
          \<and> demoActivityLog s3 = logEntry log_id now pid ''demo_user'' ''project_deleted''
                                    (Some (ProjectId pid)) None # demoActivityLog s
          \<and> ls_log s3 = demoActivityLog s3))
   \<and> (pid \<notin> p_id ` set (demoProjects s) \<longrightarrow> deleteProject_demo log_id now pid s = Inr s)
   \<and> (createTask_demo new_id now ti s = Inr (t4, s4) \<longrightarrow>
       ls_log s4 = ls_log s \<and> demoActivityLog s4 = demoActivityLog s)
   \<and> (updateTask_demo now tid pid tupd s = Inr (t5, s5) \<longrightarrow>
       ls_log s5 = ls_log s \<and> demoActivityLog s5 = demoActivityLog s)
   \<and> (deleteTask_demo tid pid s = Inr s6 \<longrightarrow>
       ls_log s6 = ls_log s \<and> demoActivityLog s6 = demoActivityLog s)
   \<and> (u \<in> set (auth_users d)
        \<and> createTask_managed new_id log_id now (Some u) ti d = Inr (t7, d7) \<longrightarrow>
       activity_log d7 = activity_log d
           @ [logEntry log_id now (t_project_id t7) u ''task_created''
                (Some (TaskName (t_name t7))) (Some (t_id t7))])
   \<and> (u \<in> set (auth_users d)
        \<and> updateTask_managed log_id now (Some u) tid pid tupd d = Inr (t8, d8) \<longrightarrow>
       activity_log d8 = activity_log d
           @ [logEntry log_id now (t_project_id t8) u ''task_updated''
                (Some (TaskUpdates tupd)) (Some tid)])
   \<and> (createProject_managed new_id log_id now (Some u) pr d = Inr (r9, d9) \<longrightarrow>
       activity_log d9 = activity_log d
           @ [logEntry log_id now (pr_id r9) u ''project_created''
                (Some (ProjectName (pr_name r9))) None])
   \<and> (u \<in> set (auth_users d)
        \<and> updateProject_managed log_id now (Some u) pid upd d = Inr (r10, d10) \<longrightarrow>
       activity_log d10 = activity_log d
           @ [logEntry log_id now pid u ''project_updated''
                (Some (ProjectUpdates (upd\<lparr>pu_last_modified := Some now\<rparr>))) None])"
proof -
  have 1: "createProject_demo new_id log_id now pr s = (p1, s1) \<longrightarrow>
       demoActivityLog s1 = logEntry log_id now new_id ''demo_user'' ''project_created''
                              (Some (ProjectName (pi_name pr))) None # demoActivityLog s
       \<and> ls_log s1 = demoActivityLog s1"
    by (auto simp: createProject_demo_def Let_def logActivity_demo_log saveProjects_def)
  have 2: "updateProject_demo log_id now pid upd s = Inr (p2, s2) \<longrightarrow>
       demoActivityLog s2 = logEntry log_id now pid ''demo_user'' ''project_updated''
                              (Some (ProjectUpdates (upd\<lparr>pu_last_modified := Some now\<rparr>))) None
                            # demoActivityLog s
       \<and> ls_log s2 = demoActivityLog s2"
    by (auto simp: updateProject_demo_def Let_def logActivity_demo_log saveProjects_def
             split: option.splits)
  note 3 = deleteProject_demo_log[of pid s log_id now]
  have missing: "pid \<notin> p_id ` set (demoProjects s) \<longrightarrow> deleteProject_demo log_id now pid s = Inr s"
    using deleteProject_demo_missing[of pid s log_id now] by blast
  note 4 = demo_task_ops_keep_log[of new_id now ti s t4 s4 tid pid tupd t5 s5 s6]
  note 7 = createTask_managed_log[of new_id log_id now u ti d t7 d7]
  note 8 = updateTask_managed_log[of log_id now u tid pid tupd d t8 d8]
  note 9 = createProject_managed_log[of new_id log_id now u pr d r9 d9]
  note 10 = updateProject_managed_log[of log_id now u pid upd d r10 d10]
  from 1 2 3 missing 4 7 8 9 10 show ?thesis by blast
qed

theorem activity_log_entries_witness:
  "(\<exists>p s1. createProject_demo ''n1'' ''l1'' 7
               \<lparr> pi_name = ''Plan'', pi_description = None, pi_status = None,
                 pi_team_members = None \<rparr> ex_store = (p, s1)
        \<and> map l_action (demoActivityLog s1) = [''project_created''])
   \<and> (\<exists>p s2. updateProject_demo ''l1'' 7 ''p1''
               \<lparr> pu_name = Some ''Renamed'', pu_description = None, pu_status = None,
                 pu_team_members = None, pu_tasks = None, pu_custom_fields = None,
                 pu_last_modified = None \<rparr> ex_store = Inr (p, s2)
        \<and> map l_action (demoActivityLog s2) = [''project_updated''])
   \<and> (\<exists>s3. deleteProject_demo ''l1'' 7 ''p1'' ex_store = Inr s3
        \<and> map l_action (demoActivityLog s3) = [''project_deleted''])
   \<and> deleteProject_demo ''l1'' 7 ''nope'' ex_store = Inr ex_store
   \<and> (\<exists>t s4. createTask_demo ''n1'' 7 (mk_insert (Some ''p1'') ''A'' 1 2) ex_store = Inr (t, s4)
        \<and> demoActivityLog s4 = [] \<and> ls_log s4 = [])
   \<and> (\<exists>t s5. updateTask_demo 7 ''t1'' ''p1'' (no_updates\<lparr>tu_name := Some ''Renamed''\<rparr>) ex_store = Inr (t, s5)
        \<and> demoActivityLog s5 = [] \<and> ls_log s5 = [])
   \<and> (\<exists>s6. deleteTask_demo ''t1'' ''p1'' ex_store = Inr s6
        \<and> demoActivityLog s6 = [] \<and> ls_log s6 = [])
   \<and> (\<exists>t d7. createTask_managed ''n1'' ''l1'' 7 (Some ''bob'')
                 (mk_insert (Some ''p1'') ''A'' 1 2) ex_db = Inr (t, d7)
        \<and> map l_action (activity_log d7) = [''task_created''])
   \<and> (\<exists>t d8. updateTask_managed ''l1'' 7 (Some ''bob'') ''t1'' ''p1''
                 (no_updates\<lparr>tu_name := Some ''Renamed''\<rparr>) ex_db
                 = Inr (t, d8)
        \<and> map l_action (activity_log d8) = [''task_updated''])
   \<and> (\<exists>r d9. createProject_managed ''n1'' ''l1'' 7 (Some ''bob'')
                 \<lparr> pi_name = ''Plan'', pi_description = None, pi_status = None,
                   pi_team_members = None \<rparr> ex_db = Inr (r, d9)
        \<and> map l_action (activity_log d9) = [''project_created''])
   \<and> (\<exists>r d10. updateProject_managed ''l1'' 7 (Some ''bob'') ''p1''
               \<lparr> pu_name = Some ''Renamed'', pu_description = None, pu_status = None,
                 pu_team_members = None, pu_tasks = None, pu_custom_fields = None,
                 pu_last_modified = None \<rparr> ex_db = Inr (r, d10)
        \<and> map l_action (activity_log d10) = [''project_updated''])"
proof -
  let ?pi = "\<lparr> pi_name = ''Plan'', pi_description = None, pi_status = None,
                 pi_team_members = None \<rparr>"
  let ?pu = "\<lparr> pu_name = Some ''Renamed'', pu_description = None, pu_status = None,
                 pu_team_members = None, pu_tasks = None, pu_custom_fields = None,
                 pu_last_modified = None \<rparr>"
  let ?ti = "mk_insert (Some ''p1'') ''A'' 1 2"
  obtain p1 s1 where h1: "createProject_demo ''n1'' ''l1'' 7 ?pi ex_store = (p1, s1)"
    by (cases "createProject_demo ''n1'' ''l1'' 7 ?pi ex_store") blast
  have "\<not> isl (updateProject_demo ''l1'' 7 ''p1'' ?pu ex_store)" by code_simp
  then obtain p2 s2 where h2: "updateProject_demo ''l1'' 7 ''p1'' ?pu ex_store = Inr (p2, s2)"
    using sum_not_isl by fastforce
  have h3: "''p1'' \<in> p_id ` set (demoProjects ex_store)" by code_simp
  have "\<not> isl (createTask_demo ''n1'' 7 ?ti ex_store)" by code_simp
  then obtain t4 s4 where h4: "createTask_demo ''n1'' 7 ?ti ex_store = Inr (t4, s4)"
    using sum_not_isl by fastforce
  have "\<not> isl (updateTask_demo 7 ''t1'' ''p1'' (no_updates\<lparr>tu_name := Some ''Renamed''\<rparr>) ex_store)" by code_simp
  then obtain t5 s5 where h5: "updateTask_demo 7 ''t1'' ''p1'' (no_updates\<lparr>tu_name := Some ''Renamed''\<rparr>) ex_store = Inr (t5, s5)"
    using sum_not_isl by fastforce
  have "\<not> isl (deleteTask_demo ''t1'' ''p1'' ex_store)" by code_simp
  then obtain s6 where h6: "deleteTask_demo ''t1'' ''p1'' ex_store = Inr s6"
    using sum_not_isl by fastforce
  have hb: "''bob'' \<in> set (auth_users ex_db)" by code_simp
  have "\<not> isl (createTask_managed ''n1'' ''l1'' 7 (Some ''bob'') ?ti ex_db)" by code_simp
  then obtain t7 d7 where
    h7: "createTask_managed ''n1'' ''l1'' 7 (Some ''bob'') ?ti ex_db = Inr (t7, d7)"
    using sum_not_isl by fastforce
  have "\<not> isl (updateTask_managed ''l1'' 7 (Some ''bob'') ''t1'' ''p1''
                 (no_updates\<lparr>tu_name := Some ''Renamed''\<rparr>) ex_db)"
    by code_simp
  then obtain t8 d8 where
    h8: "updateTask_managed ''l1'' 7 (Some ''bob'') ''t1'' ''p1''
                 (no_updates\<lparr>tu_name := Some ''Renamed''\<rparr>) ex_db = Inr (t8, d8)"
    using sum_not_isl by fastforce
  have "\<not> isl (createProject_managed ''n1'' ''l1'' 7 (Some ''bob'') ?pi ex_db)" by code_simp
  then obtain r9 d9 where
    h9: "createProject_managed ''n1'' ''l1'' 7 (Some ''bob'') ?pi ex_db = Inr (r9, d9)"
    using sum_not_isl by fastforce
  have "\<not> isl (updateProject_managed ''l1'' 7 (Some ''bob'') ''p1'' ?pu ex_db)" by code_simp
  then obtain r10 d10 where
    h10: "updateProject_managed ''l1'' 7 (Some ''bob'') ''p1'' ?pu ex_db = Inr (r10, d10)"
    using sum_not_isl by fastforce
  have e: "demoActivityLog ex_store = []" "ls_log ex_store = []" "activity_log ex_db = []"
    by (simp_all add: ex_store_def ex_db_def)
  have a: "\<And>a b c d e f g. l_action (logEntry a b c d e f g) = e"
    by (simp add: logEntry_def)
  note T = activity_log_entries[where log_id = "''l1''" and now = 7 and s = ex_store
      and d = ex_db and pid = "''p1''" and tid = "''t1''" and tupd = "no_updates\<lparr>tu_name := Some ''Renamed''\<rparr>" and upd = ?pu
      and ti = ?ti and new_id = "''n1''" and pr = ?pi and ?p1.0 = p1 and ?s1.0 = s1
      and ?p2.0 = p2 and ?s2.0 = s2 and ?t4.0 = t4 and ?s4.0 = s4 and ?t5.0 = t5
      and ?s5.0 = s5 and ?s6.0 = s6 and u = "''bob''" and ?t7.0 = t7 and ?d7.0 = d7
      and ?t8.0 = t8 and ?d8.0 = d8 and ?r9.0 = r9 and ?d9.0 = d9 and ?r10.0 = r10
      and ?d10.0 = d10]
  from T h1 have A: "map l_action (demoActivityLog s1) = [''project_created'']"
    by (simp add: e a)
  from T h2 have B: "map l_action (demoActivityLog s2) = [''project_updated'']"
    by (simp add: e a)
  from T h3 obtain s3 where "deleteProject_demo ''l1'' 7 ''p1'' ex_store = Inr s3"
    "demoActivityLog s3 = logEntry ''l1'' 7 ''p1'' ''demo_user'' ''project_deleted''
                                    (Some (ProjectId ''p1'')) None # demoActivityLog ex_store"
    by blast
  then have C: "\<exists>s3. deleteProject_demo ''l1'' 7 ''p1'' ex_store = Inr s3
        \<and> map l_action (demoActivityLog s3) = [''project_deleted'']"
    by (simp add: e a)
  have hn: "''nope'' \<notin> p_id ` set (demoProjects ex_store)" by code_simp
  from activity_log_entries[where log_id = "''l1''" and now = 7 and s = ex_store
      and pid = "''nope''", THEN conjunct2, THEN conjunct2, THEN conjunct2, THEN conjunct1] hn
  have C': "deleteProject_demo ''l1'' 7 ''nope'' ex_store = Inr ex_store" by blast
  from T h4 have D: "demoActivityLog s4 = [] \<and> ls_log s4 = []" by (simp add: e)
  from T h5 have E: "demoActivityLog s5 = [] \<and> ls_log s5 = []" by (simp add: e)
  from T h6 have F: "demoActivityLog s6 = [] \<and> ls_log s6 = []" by (simp add: e)
  from T hb h7 have G: "map l_action (activity_log d7) = [''task_created'']" by (simp add: e a)
  from T hb h8 have H: "map l_action (activity_log d8) = [''task_updated'']" by (simp add: e a)
  from T h9 have I: "map l_action (activity_log d9) = [''project_created'']" by (simp add: e a)
  from T hb h10 have J: "map l_action (activity_log d10) = [''project_updated'']"
    by (simp add: e a)
  from h1 A have X1: "\<exists>p s1. createProject_demo ''n1'' ''l1'' 7 ?pi ex_store = (p, s1)
        \<and> map l_action (demoActivityLog s1) = [''project_created'']" by auto
  from h2 B have X2: "\<exists>p s2. updateProject_demo ''l1'' 7 ''p1'' ?pu ex_store = Inr (p, s2)
        \<and> map l_action (demoActivityLog s2) = [''project_updated'']" by auto
  from h4 D have X4: "\<exists>t s4. createTask_demo ''n1'' 7 ?ti ex_store = Inr (t, s4)
        \<and> demoActivityLog s4 = [] \<and> ls_log s4 = []" by auto
  from h5 E have X5: "\<exists>t s5. updateTask_demo 7 ''t1'' ''p1'' (no_updates\<lparr>tu_name := Some ''Renamed''\<rparr>) ex_store = Inr (t, s5)
        \<and> demoActivityLog s5 = [] \<and> ls_log s5 = []" by auto
  from h6 F have X6: "\<exists>s6. deleteTask_demo ''t1'' ''p1'' ex_store = Inr s6
        \<and> demoActivityLog s6 = [] \<and> ls_log s6 = []" by auto
  from h7 G have X7: "\<exists>t d7. createTask_managed ''n1'' ''l1'' 7 (Some ''bob'') ?ti ex_db
                 = Inr (t, d7)
        \<and> map l_action (activity_log d7) = [''task_created'']" by auto
  from h8 H have X8: "\<exists>t d8. updateTask_managed ''l1'' 7 (Some ''bob'') ''t1'' ''p1''
                 (no_updates\<lparr>tu_name := Some ''Renamed''\<rparr>) ex_db = Inr (t, d8)
        \<and> map l_action (activity_log d8) = [''task_updated'']" by auto
  from h9 I have X9: "\<exists>r d9. createProject_managed ''n1'' ''l1'' 7 (Some ''bob'') ?pi ex_db
                 = Inr (r, d9)
        \<and> map l_action (activity_log d9) = [''project_created'']" by auto
  from h10 J have X10: "\<exists>r d10. updateProject_managed ''l1'' 7 (Some ''bob'') ''p1'' ?pu ex_db
                 = Inr (r, d10)
        \<and> map l_action (activity_log d10) = [''project_updated'']" by auto
  show ?thesis by (intro conjI X1 X2 C C' X4 X5 X6 X7 X8 X9 X10)
qed

text \<open>
  The local variant creates a task and writes no log entry; the managed variant deletes
  a task, and a project, and no row is added to \<open>activity_log\<close>.
\<close>

theorem activity_log_counterexample:
  "(case createTask_demo ''n1'' 7 (mk_insert (Some ''p1'') ''A'' 1 2) ex_store of
      Inl e \<Rightarrow> False
    | Inr (t, s') \<Rightarrow>
        find (\<lambda>x. t_id x = ''n1'') (getProjectTasks_demo ''p1'' s') = Some t
        \<and> ls_log s' = ls_log ex_store \<and> demoActivityLog s' = demoActivityLog ex_store)
   \<and> (case deleteTask_managed ''l1'' 7 (Some ''alice'') ''t1'' ''p1'' ex_db of
      Inl e \<Rightarrow> False
    | Inr d' \<Rightarrow> find (\<lambda>x. t_id x = ''t1'') (tasks d') = None
        \<and> find (\<lambda>x. t_id x = ''t1'') (tasks ex_db) \<noteq> None
        \<and> activity_log d' = activity_log ex_db)
   \<and> (case deleteProject_managed ''l1'' 7 (Some ''alice'') ''p1'' ex_db of
      Inl e \<Rightarrow> False
    | Inr d' \<Rightarrow> projects d' = [] \<and> projects ex_db \<noteq> []
        \<and> activity_log d' = activity_log ex_db)"
  by code_simp

section \<open>Deleting a project\<close>

lemma delete_project_no_access:
  "\<not> can_access_project (delete_project d (Some u) pid) u pid"
  by (auto simp: delete_project_def can_access_project_def rls_using_def list_ex_iff
        filter_empty_conv Let_def)

lemma deleteProject_managed_eq:
  "deleteProject_managed log_id now (Some u) pid d = Inr (delete_project d (Some u) pid)"
proof -
  have "insert_activity (delete_project d (Some u) pid) (Some u)
          (logEntry log_id now pid u ''project_deleted'' (Some (ProjectId pid)) None)
        = Inl (Postgrest RlsViolation)"
    using delete_project_no_access[of d u pid]
    by (simp add: insert_activity_def rls_with_check_def logEntry_def)
  then show ?thesis
    by (simp add: deleteProject_managed_def logActivity_managed_def)
qed

lemma delete_project_accessible:
  assumes "can_access_project d u pid"
  shows "tasks (delete_project d (Some u) pid) = filter (\<lambda>t. t_project_id t \<noteq> pid) (tasks d)
    \<and> activity_log (delete_project d (Some u) pid)
        = null_task_refs (map t_id (filter (\<lambda>t. t_project_id t = pid) (tasks d)))
            (filter (\<lambda>a. l_project_id a \<noteq> pid) (activity_log d))"
proof -
  from assms have "filter (\<lambda>r. pr_id r = pid \<and> rls_using d (Some u) Delete (ProjectRow r))
                      (projects d) \<noteq> []"
    by (auto simp: can_access_project_def list_ex_iff rls_using_def filter_empty_conv)
  then show ?thesis by (simp add: delete_project_def Let_def)
qed

lemma null_task_refs_map:
  "null_task_refs (map t_id (filter (\<lambda>t. t_project_id t = pid) ts)) lg
     = map (\<lambda>a. if (\<exists>t\<in>set ts. t_project_id t = pid \<and> l_task_id a = Some (t_id t))
                 then a\<lparr>l_task_id := None\<rparr> else a) lg"
  by (auto simp: null_task_refs_def split: option.splits)

lemma null_task_refs_project:
  "a \<in> set (null_task_refs gone lg) \<Longrightarrow> \<exists>b\<in>set lg. l_project_id a = l_project_id b"
  by (auto simp: null_task_refs_def split: option.splits if_splits)

text \<open>
  Claim C8, as the schema has it. When a principal deletes a project it can access
  (managed variant), the call returns; every task of the project is deleted and the
  other tasks stay; every \<open>activity_log\<close> row of the project is deleted as well
  (\<open>project_id\<close> is \<open>ON DELETE CASCADE\<close>), whether or not it referred to a task; the rows
  of other projects stay, and those that referred to a deleted task have \<open>task_id\<close> set
  to null.
\<close>

theorem delete_project_cascade:
  "can_access_project d u pid \<longrightarrow>
     (\<exists>d'. deleteProject_managed log_id now (Some u) pid d = Inr d'
        \<and> tasks d' = filter (\<lambda>t. t_project_id t \<noteq> pid) (tasks d)
        \<and> (\<forall>t\<in>set (tasks d'). t_project_id t \<noteq> pid)
        \<and> (\<forall>a\<in>set (activity_log d'). l_project_id a \<noteq> pid)
        \<and> activity_log d'
            = map (\<lambda>a. if (\<exists>t\<in>set (tasks d). t_project_id t = pid \<and> l_task_id a = Some (t_id t))
                        then a\<lparr>l_task_id := None\<rparr> else a)
                (filter (\<lambda>a. l_project_id a \<noteq> pid) (activity_log d)))"
proof
  assume acc: "can_access_project d u pid"
  let ?d' = "delete_project d (Some u) pid"
  note eq = deleteProject_managed_eq[of log_id now u pid d]
  from delete_project_accessible[OF acc]
  have t: "tasks ?d' = filter (\<lambda>t. t_project_id t \<noteq> pid) (tasks d)"
    and l: "activity_log ?d'
        = null_task_refs (map t_id (filter (\<lambda>t. t_project_id t = pid) (tasks d)))
            (filter (\<lambda>a. l_project_id a \<noteq> pid) (activity_log d))"
    by simp_all
  have 1: "\<forall>t\<in>set (tasks ?d'). t_project_id t \<noteq> pid" unfolding t by simp
  have 2: "\<forall>a\<in>set (activity_log ?d'). l_project_id a \<noteq> pid"
  proof
    fix a assume "a \<in> set (activity_log ?d')"
    from null_task_refs_project[OF this[unfolded l]] show "l_project_id a \<noteq> pid" by auto
  qed
  from eq t 1 2 l[unfolded null_task_refs_map]
  show "\<exists>d'. deleteProject_managed log_id now (Some u) pid d = Inr d'
        \<and> tasks d' = filter (\<lambda>t. t_project_id t \<noteq> pid) (tasks d)
        \<and> (\<forall>t\<in>set (tasks d'). t_project_id t \<noteq> pid)
        \<and> (\<forall>a\<in>set (activity_log d'). l_project_id a \<noteq> pid)
        \<and> activity_log d'
            = map (\<lambda>a. if (\<exists>t\<in>set (tasks d). t_project_id t = pid \<and> l_task_id a = Some (t_id t))
                        then a\<lparr>l_task_id := None\<rparr> else a)
                (filter (\<lambda>a. l_project_id a \<noteq> pid) (activity_log d))"
    by (intro exI[of _ ?d'] conjI)
qed

theorem delete_project_cascade_witness:
  "\<exists>d'. deleteProject_managed ''l9'' 7 (Some ''alice'') ''p1'' ex_shared_db = Inr d'
      \<and> tasks d' = []
      \<and> activity_log d'
          = [logEntry ''l2'' 3 ''p2'' ''alice'' ''task_updated'' None None,
             logEntry ''l3'' 4 ''p2'' ''alice'' ''project_updated'' None None]"
proof -
  have acc: "can_access_project ex_shared_db ''alice'' ''p1''" by code_simp
  have t: "filter (\<lambda>t. t_project_id t \<noteq> ''p1'') (tasks ex_shared_db) = []"
    by code_simp
  have l: "map (\<lambda>a. if (\<exists>t\<in>set (tasks ex_shared_db).
                          t_project_id t = ''p1'' \<and> l_task_id a = Some (t_id t))
                     then a\<lparr>l_task_id := None\<rparr> else a)
             (filter (\<lambda>a. l_project_id a \<noteq> ''p1'') (activity_log ex_shared_db))
           = [logEntry ''l2'' 3 ''p2'' ''alice'' ''task_updated'' None None,
              logEntry ''l3'' 4 ''p2'' ''alice'' ''project_updated'' None None]"
    by (simp add: ex_shared_db_def ex_db_def ex_tasks_def mk_task_def logEntry_def or_null_def)
  from delete_project_cascade[of ex_shared_db "''alice''" "''p1''" "''l9''" 7] acc
  show ?thesis unfolding t l by blast
qed

text \<open>
  After the round trip the three tasks are gone and so are the log rows that referred
  to them: no row of \<open>activity_log\<close> is left.
\<close>

theorem round_trip_log_counterexample:
  "(case ex_before of
      Inl e \<Rightarrow> False
    | Inr d4 \<Rightarrow> map t_id (tasks d4) = [''t1'', ''t2'', ''t3'']
        \<and> map l_task_id (activity_log d4) = [None, Some ''t1'', Some ''t2'', Some ''t3''])
   \<and> (case ex_after of
      Inl e \<Rightarrow> False
    | Inr d5 \<Rightarrow> projects d5 = [] \<and> tasks d5 = [] \<and> activity_log d5 = [])"
  by code_simp

end
